theory Spec2Isabelle
  imports Main "HOL-Library.Multiset" "HOL-Library.Char_ord" "HOL-Library.List_Lexorder"
begin

section \<open>Errors\<close>

text \<open>
  The package has three sentinel errors (\<open>ErrNoManifest\<close>, \<open>ErrNoKeyFile\<close>,
  \<open>ErrNoInstallation\<close>). Every other error comes from a collaborator outside the package
  (the operating system, the semver, JSON, YAML and template libraries, the issuer generator,
  the REST client, the applier); such an error is a value of the type parameter \<open>'x\<close>,
  carried by \<open>Lib\<close>. \<open>FsNotExist\<close> and \<open>FsIsDirectory\<close> are the two path errors of the
  embedded file system, \<open>Wrapf\<close> is \<open>fmt.Errorf("...: %w", err)\<close>, and the two panics are
  the run-time panics the code can reach.
\<close>

datatype 'x error =
    ErrNoManifest
  | ErrNoKeyFile
  | ErrNoInstallation
  | FsNotExist string
  | FsIsDirectory string
  | Lib 'x
  | Wrapf string "'x error"
  | PanicIndexOutOfRange
  | PanicNilDereference

section \<open>Library: base64.StdEncoding\<close>

text \<open>
  \<open>encoding/base64\<close>, standard alphabet with padding. As in the library, three input bytes
  form a 24-bit value whose four 6-bit groups index the alphabet; a tail of one or two bytes
  is padded with \<open>=\<close>.
\<close>

definition encodeStd :: string where
  "encodeStd = ''ABCDEFGHIJKLMNOPQRSTUVWXYZabcdefghijklmnopqrstuvwxyz0123456789+/''"

definition enc :: "nat \<Rightarrow> char" where
  "enc n = encodeStd ! (n mod 64)"

fun EncodeToString :: "string \<Rightarrow> string" where
  "EncodeToString [] = []"
| "EncodeToString [a] =
     (let val = of_char a * 65536
      in [enc (val div 262144), enc (val div 4096), CHR ''='', CHR ''=''])"
| "EncodeToString [a, b] =
     (let val = of_char a * 65536 + of_char b * 256
      in [enc (val div 262144), enc (val div 4096), enc (val div 64), CHR ''=''])"
| "EncodeToString (a # b # c # src) =
     (let val = of_char a * 65536 + of_char b * 256 + of_char c
      in enc (val div 262144) # enc (val div 4096) # enc (val div 64) # enc val
         # EncodeToString src)"




section \<open>Library: strings, path/filepath, sort\<close>

text \<open>\<open>strings.TrimSuffix\<close>: the string without the suffix when it ends with it.\<close>

definition TrimSuffix :: "string \<Rightarrow> string \<Rightarrow> string" where
  "TrimSuffix s suffix =
     (if length suffix \<le> length s \<and> drop (length s - length suffix) s = suffix
      then take (length s - length suffix) s else s)"

text \<open>\<open>strings.Split(s, "/")\<close>: the elements between separators, empty ones included.\<close>

fun splitSlash :: "string \<Rightarrow> string list" where
  "splitSlash [] = [[]]"
| "splitSlash (c # cs) =
     (if c = CHR ''/'' then [] # splitSlash cs
      else case splitSlash cs of
             [] \<Rightarrow> [[c]]
           | e # es \<Rightarrow> (c # e) # es)"

fun joinSlash :: "string list \<Rightarrow> string" where
  "joinSlash [] = []"
| "joinSlash [e] = e"
| "joinSlash (e # es) = e @ CHR ''/'' # joinSlash es"

text \<open>
  \<open>filepath.Clean\<close> on a Unix path, element by element: empty and \<open>.\<close> elements are
  dropped; \<open>..\<close> removes the element before it, is dropped at the root of a rooted path,
  and is kept in front of a relative one; the empty result is \<open>.\<close>. The second argument of
  \<open>cleanElems\<close> is the output written so far, last element first.
\<close>

fun cleanElems :: "bool \<Rightarrow> string list \<Rightarrow> string list \<Rightarrow> string list" where
  "cleanElems rooted out [] = rev out"
| "cleanElems rooted out (e # es) =
     (if e = [] \<or> e = ''.'' then cleanElems rooted out es
      else if e = ''..'' then
        (case out of
           [] \<Rightarrow> if rooted then cleanElems rooted [] es else cleanElems rooted [''..''] es
         | t # ts \<Rightarrow>
             if t = ''..'' then cleanElems rooted (''..'' # out) es
             else cleanElems rooted ts es)
      else cleanElems rooted (e # out) es)"

definition Clean :: "string \<Rightarrow> string" where
  "Clean path =
     (if path = [] then ''.''
      else let rooted = (hd path = CHR ''/'');
               out = (if rooted then ''/'' else []) @ joinSlash (cleanElems rooted [] (splitSlash path))
           in if out = [] then ''.'' else out)"

text \<open>\<open>filepath.Join\<close>: empty elements are ignored, the rest joined and cleaned.\<close>

definition Join :: "string list \<Rightarrow> string" where
  "Join elem =
     (case filter (\<lambda>e. e \<noteq> []) elem of
        [] \<Rightarrow> []
      | e # es \<Rightarrow> Clean (joinSlash (e # es)))"

text \<open>
  \<open>filepath.Base\<close>: the last element of the path, after removing trailing slashes; \<open>.\<close> for
  the empty path and \<open>/\<close> for a path of slashes only.
\<close>

definition Base :: "string \<Rightarrow> string" where
  "Base path =
     (if path = [] then ''.''
      else let p = rev (dropWhile (\<lambda>c. c = CHR ''/'') (rev path))
           in if p = [] then ''/''
              else rev (takeWhile (\<lambda>c. c \<noteq> CHR ''/'') (rev p)))"

text \<open>
  \<open>sort.Sort\<close> and \<open>sort.Slice\<close> order a slice by its \<open>Less\<close> function and are not
  stable. The library sorts short slices by insertion, which is the model here: each element
  in turn moves down while it is less than its predecessor. \<open>insertionStep\<close> works on the
  sorted prefix written last element first. The theorems below use only that the result is
  ordered and is a permutation of the input.
\<close>

fun insertionStep :: "('a \<Rightarrow> 'a \<Rightarrow> bool) \<Rightarrow> 'a \<Rightarrow> 'a list \<Rightarrow> 'a list" where
  "insertionStep lt x [] = [x]"
| "insertionStep lt x (y # ys) =
     (if lt x y then y # insertionStep lt x ys else x # y # ys)"

definition insertionSort :: "('a \<Rightarrow> 'a \<Rightarrow> bool) \<Rightarrow> 'a list \<Rightarrow> 'a list" where
  "insertionSort lt xs = rev (fold (insertionStep lt) xs [])"

section \<open>Library: embed.FS\<close>

text \<open>
  The embedded file system is a tree of files and directories. \<open>go:embed installers/*.yaml\<close>
  gives a root with the single directory \<open>installers\<close>, whose entries are the parameter of
  the functions below; a matched entry may itself be a directory.
\<close>

datatype fsnode = File string | Dir "(string \<times> fsnode) list"

fun isCont :: "nat \<Rightarrow> bool" where
  "isCont b = (128 \<le> b \<and> b \<le> 191)"

text \<open>\<open>utf8.ValidString\<close> on the bytes of a string.\<close>

fun validUTF8 :: "nat list \<Rightarrow> bool" where
  "validUTF8 [] = True"
| "validUTF8 (b # bs) =
     (if b < 128 then validUTF8 bs
      else if 194 \<le> b \<and> b \<le> 223 then
        (case bs of b1 # r \<Rightarrow> isCont b1 \<and> validUTF8 r | _ \<Rightarrow> False)
      else if 224 \<le> b \<and> b \<le> 239 then
        (case bs of
           b1 # b2 # r \<Rightarrow>
             (if b = 224 then 160 \<le> b1 \<and> b1 \<le> 191
              else if b = 237 then 128 \<le> b1 \<and> b1 \<le> 159
              else isCont b1) \<and> isCont b2 \<and> validUTF8 r
         | _ \<Rightarrow> False)
      else if 240 \<le> b \<and> b \<le> 244 then
        (case bs of
           b1 # b2 # b3 # r \<Rightarrow>
             (if b = 240 then 144 \<le> b1 \<and> b1 \<le> 191
              else if b = 244 then 128 \<le> b1 \<and> b1 \<le> 143
              else isCont b1) \<and> isCont b2 \<and> isCont b3 \<and> validUTF8 r
         | _ \<Rightarrow> False)
      else False)"

text \<open>
  \<open>fs.ValidPath\<close>: valid UTF-8, and either \<open>.\<close> or slash-separated elements none of which
  is empty, \<open>.\<close> or \<open>..\<close>.
\<close>

definition ValidPath :: "string \<Rightarrow> bool" where
  "ValidPath name =
     (validUTF8 (map of_char name) \<and>
      (name = ''.'' \<or> (\<forall>e \<in> set (splitSlash name). e \<noteq> [] \<and> e \<noteq> ''.'' \<and> e \<noteq> ''..'')))"

fun lookupName :: "(string \<times> fsnode) list \<Rightarrow> string \<Rightarrow> fsnode option" where
  "lookupName [] n = None"
| "lookupName ((m, node) # es) n = (if m = n then Some node else lookupName es n)"

fun lookupElems :: "fsnode \<Rightarrow> string list \<Rightarrow> fsnode option" where
  "lookupElems node [] = Some node"
| "lookupElems (File d) (e # es) = None"
| "lookupElems (Dir entries) (e # es) =
     (case lookupName entries e of
        None \<Rightarrow> None
      | Some node \<Rightarrow> lookupElems node es)"

text \<open>
  \<open>installers.Open\<close>: an invalid or unknown path is a path error wrapping
  \<open>fs.ErrNotExist\<close>; there is no other failure.
\<close>

definition Open :: "(string \<times> fsnode) list \<Rightarrow> string \<Rightarrow> 'x error + fsnode" where
  "Open entries name =
     (if \<not> ValidPath name then Inl (FsNotExist name)
      else if name = ''.'' then Inr (Dir [(''installers'', Dir entries)])
      else case lookupElems (Dir [(''installers'', Dir entries)]) (splitSlash name) of
             None \<Rightarrow> Inl (FsNotExist name)
           | Some node \<Rightarrow> Inr node)"

text \<open>\<open>io.Copy\<close> from an opened embedded file: reading a directory fails.\<close>

fun readAll :: "fsnode \<Rightarrow> 'x error + string" where
  "readAll (File d) = Inr d"
| "readAll (Dir entries) = Inl (FsIsDirectory ''read'')"

section \<open>Data model\<close>

text \<open>
  The docker configuration of \<open>internal/docker\<close> (\<open>ConfigJSON\<close>, \<open>ConfigEntry\<close>), with the
  fields the code sets; \<open>Auths\<close> is a Go map, written as an association list.
\<close>

record ConfigEntry =
  Username :: string
  Password :: string
  Email :: string
  Auth :: string

record ConfigJSON =
  Auths :: "(string \<times> ConfigEntry) list"

text \<open>\<open>corev1.Secret\<close>, with the fields the code sets; \<open>Data\<close> maps a key to bytes.\<close>

record Secret =
  secret_APIVersion :: string
  secret_Kind :: string
  secret_Name :: string
  secret_Namespace :: string
  secret_Type :: string
  secret_Data :: "(string \<times> string) list"

text \<open>
  The \<open>Installation\<close> custom resource of the operator API, with the fields the code sets or
  reads. A Go pointer field is an \<open>option\<close> (\<open>None\<close> for nil); a pointer to an empty struct
  is \<open>unit option\<close>. The issuer fragments are values of the type parameter \<open>'f\<close>.
\<close>

record CertManagerControllerConfig =
  controller_ReplicaCount :: "int option"

record CertManagerWebhookConfig =
  webhook_ReplicaCount :: "int option"

record CertManager =
  cm_Version :: string
  cm_Controller :: "CertManagerControllerConfig option"
  cm_Webhook :: "CertManagerWebhookConfig option"

record CSIDriverCertManagerSpiffe =
  spiffe_ReplicaCount :: "int option"

record CSIDrivers =
  csi_CertManager :: "unit option"
  csi_CertManagerSpiffe :: "CSIDriverCertManagerSpiffe option"

record ObjectReference =
  ref_Name :: string
  ref_Kind :: string
  ref_Group :: string

record IstioCSR =
  istio_ReplicaCount :: "int option"
  istio_IssuerRef :: "ObjectReference option"

record VenafiOauthHelper =
  oauth_ImagePullSecrets :: "string list"

record 'f InstallationSpec =
  spec_Registry :: string
  spec_CertManager :: "CertManager option"
  spec_ApproverPolicy :: "unit option"
  spec_CSIDrivers :: "CSIDrivers option"
  spec_IstioCSR :: "IstioCSR option"
  spec_VenafiOauthHelper :: "VenafiOauthHelper option"
  spec_Issuers :: "'f list"

text \<open>
  The condition types are strings; the seven constants that are keys of \<open>componentNames\<close>
  are distinct (they are keys of one map literal), every other string is \<open>OtherType\<close>.
  Likewise the condition status is \<open>ConditionTrue\<close> or some other string.
\<close>

datatype InstallationConditionType =
    InstallationConditionCertManagerReady
  | InstallationConditionCertManagerIssuersReady
  | InstallationConditionCSIDriversReady
  | InstallationConditionIstioCSRReady
  | InstallationConditionApproverPolicyReady
  | InstallationConditionVenafiOauthHelperReady
  | InstallationConditionManifestsReady
  | OtherType string

datatype ConditionStatus = ConditionTrue | OtherStatus string

record InstallationCondition =
  cond_Type :: InstallationConditionType
  cond_Status :: ConditionStatus
  cond_Message :: string

record 'f Installation =
  inst_Kind :: string
  inst_APIVersion :: string
  inst_Name :: string
  inst_Spec :: "'f InstallationSpec"
  inst_Conditions :: "InstallationCondition list"

record 'f manifests =
  installation :: "'f Installation"
  secrets :: "Secret list"

record ComponentStatus =
  Name :: string
  Ready :: bool
  Message :: string

record ApplyOperatorYAMLOptions =
  Version :: string
  ImageRegistry :: string
  CredentialsLocation :: string

text \<open>
  \<open>ApplyInstallationYAMLOptions\<close>; its \<open>ImageRegistry\<close> field is \<open>InstImageRegistry\<close> here.
  The issuer templates are values of the type parameter \<open>'i\<close>.
\<close>

record 'i ApplyInstallationYAMLOptions =
  InstallCSIDriver :: bool
  InstallSpiffeCSIDriver :: bool
  InstallIstioCSR :: bool
  InstallVenafiOauthHelper :: bool
  VenafiIssuers :: "'i list"
  IstioCSRIssuer :: string
  InstImageRegistry :: string
  Credentials :: string
  CertManagerReplicas :: int
  CertManagerVersion :: string
  IstioCSRReplicas :: int
  SpiffeCSIDriverReplicas :: int

section \<open>Collaborators\<close>

text \<open>
  What \<open>os.Open\<close> followed by \<open>ioutil.ReadAll\<close> gives for a path: the file does not exist,
  opening fails otherwise, reading fails, or the contents.
\<close>

datatype 'x keyfile = NotExist | OpenFailed 'x | ReadFailed 'x | Contents string

text \<open>
  Everything the package calls outside itself, as one record: the embedded directory, the
  file system, the semver library (\<open>NewVersion\<close>, \<open>LessThan\<close>, \<open>String\<close>), \<open>json.Marshal\<close> of
  the docker configuration, \<open>yaml.Marshal\<close> of a secret and of an installation,
  \<open>template.Parse\<close> and \<open>Execute\<close> with the registry as the only datum, the issuer generator
  of \<open>internal/venafi\<close>, and the REST fetch of the installation with \<open>kerrors.IsNotFound\<close>.
\<close>

record ('x, 'v, 't, 'i, 'f) world =
  installers :: "(string \<times> fsnode) list"
  os_ReadFile :: "string \<Rightarrow> 'x keyfile"
  semver_NewVersion :: "string \<Rightarrow> 'x + 'v"
  semver_LessThan :: "'v \<Rightarrow> 'v \<Rightarrow> bool"
  semver_String :: "'v \<Rightarrow> string"
  json_Marshal :: "ConfigJSON \<Rightarrow> 'x + string"
  yaml_Marshal_Secret :: "Secret \<Rightarrow> 'x + string"
  yaml_Marshal_Installation :: "'f Installation \<Rightarrow> 'x + string"
  template_Parse :: "string \<Rightarrow> 'x + 't"
  template_Execute :: "'t \<Rightarrow> string \<Rightarrow> 'x + string"
  GenerateOperatorManifestsForIssuer :: "'i \<Rightarrow> 'x + ('f \<times> Secret)"
  InstallationGVK :: "string \<times> string"
  client_Get :: "'x + 'f Installation"
  IsNotFound :: "'x \<Rightarrow> bool"

text \<open>
  \<open>errors.Is(err, os.ErrNotExist)\<close>: true of the path error of the embedded file system and
  of anything wrapping it.
\<close>

fun isNotExist :: "'x error \<Rightarrow> bool" where
  "isNotExist (FsNotExist p) = True"
| "isNotExist (Wrapf m e) = isNotExist e"
| "isNotExist _ = False"

section \<open>Version catalog\<close>

text \<open>
  \<open>Versions\<close> (operator.go, lines 143 to 177). \<open>ReadDir\<close> of the embedded directory
  cannot fail, since the directory is embedded; its entries are \<open>installers w\<close>. The first
  loop collects the names of the entries that are not directories.
\<close>

fun rawVersions :: "(string \<times> fsnode) list \<Rightarrow> string list" where
  "rawVersions [] = []"
| "rawVersions ((name, Dir sub) # entries) = rawVersions entries"
| "rawVersions ((name, File d) # entries) =
     TrimSuffix (Base name) ''.yaml'' # rawVersions entries"

text \<open>The second loop: parse each name, stop at the first that fails.\<close>

fun parseVersions :: "(string \<Rightarrow> 'x + 'v) \<Rightarrow> string list \<Rightarrow> 'x error + 'v list" where
  "parseVersions parse [] = Inr []"
| "parseVersions parse (rawVersion # rest) =
     (case parse rawVersion of
        Inl err \<Rightarrow> Inl (Lib err)
      | Inr parsedVersion \<Rightarrow>
          (case parseVersions parse rest of
             Inl err \<Rightarrow> Inl err
           | Inr parsedVersions \<Rightarrow> Inr (parsedVersion # parsedVersions)))"

definition Versions :: "('x, 'v, 't, 'i, 'f) world \<Rightarrow> 'x error + string list" where
  "Versions w =
     (case parseVersions (semver_NewVersion w) (rawVersions (installers w)) of
        Inl err \<Rightarrow> Inl err
      | Inr parsedVersions \<Rightarrow>
          Inr (map (\<lambda>parsedVersion. ''v'' @ semver_String w parsedVersion)
                 (insertionSort (semver_LessThan w) parsedVersions)))"

definition latestManifest :: "('x, 'v, 't, 'i, 'f) world \<Rightarrow> 'x error + fsnode" where
  "latestManifest w =
     (case Versions w of
        Inl err \<Rightarrow> Inl err
      | Inr versions \<Rightarrow>
          (if versions = [] then Inl PanicIndexOutOfRange
           else let latest = last versions; name = latest @ ''.yaml''
                in Open (installers w) (Join [''installers'', name])))"

definition manifestVersion :: "('x, 'v, 't, 'i, 'f) world \<Rightarrow> string \<Rightarrow> 'x error + fsnode" where
  "manifestVersion w version =
     (let name = version @ ''.yaml''
      in case Open (installers w) (Join [''installers'', name]) of
           Inl err \<Rightarrow> (if isNotExist err then Inl ErrNoManifest else Inl err)
         | Inr file \<Rightarrow> Inr file)"

section \<open>Image pull secret\<close>

text \<open>
  \<open>ImagePullSecret\<close> (operator.go, lines 185 to 248); \<open>dockerConfig\<close> is the
  configuration it builds from the key data, lines 204 to 219.
\<close>

definition dockerConfig :: "string \<Rightarrow> ConfigJSON" where
  "dockerConfig keyData =
     (let username = ''_json_key''; email = ''auth@jetstack.io'';
          auth = username @ '':'' @ keyData
      in \<lparr>Auths = [(''eu.gcr.io'',
            \<lparr>Username = username, Password = keyData, Email = email,
             Auth = EncodeToString auth\<rparr>)]\<rparr>)"

definition ImagePullSecret :: "('x, 'v, 't, 'i, 'f) world \<Rightarrow> string \<Rightarrow> 'x error + Secret" where
  "ImagePullSecret w keyFileLocation =
     (case os_ReadFile w keyFileLocation of
        NotExist \<Rightarrow> Inl ErrNoKeyFile
      | OpenFailed err \<Rightarrow> Inl (Lib err)
      | ReadFailed err \<Rightarrow> Inl (Wrapf ''failed to read key file'' (Lib err))
      | Contents keyData \<Rightarrow>
          (case json_Marshal w (dockerConfig keyData) of
             Inl err \<Rightarrow> Inl (Wrapf ''failed to encode docker config'' (Lib err))
           | Inr configJSON \<Rightarrow>
               Inr \<lparr>secret_APIVersion = ''v1'', secret_Kind = ''Secret'',
                    secret_Name = ''jse-gcr-creds'', secret_Namespace = ''jetstack-secure'',
                    secret_Type = ''kubernetes.io/dockerconfigjson'',
                    secret_Data = [(''.dockerconfigjson'', configJSON)]\<rparr>))"

section \<open>Installer renderer\<close>

text \<open>
  \<open>ApplyOperatorYAML\<close> (operator.go, lines 62 to 112) up to the call of the applier: the
  stream it would hand over, or the error it returns before.
\<close>

definition renderOperatorYAML ::
  "('x, 'v, 't, 'i, 'f) world \<Rightarrow> ApplyOperatorYAMLOptions \<Rightarrow> 'x error + string" where
  "renderOperatorYAML w options =
     (case (if Version options = [] then latestManifest w
            else manifestVersion w (Version options)) of
        Inl err \<Rightarrow> Inl err
      | Inr file \<Rightarrow>
     (case readAll file of
        Inl err \<Rightarrow> Inl err
      | Inr buf \<Rightarrow>
     (case ImagePullSecret w (CredentialsLocation options) of
        Inl err \<Rightarrow> Inl err
      | Inr secret \<Rightarrow>
     (case yaml_Marshal_Secret w secret of
        Inl err \<Rightarrow> Inl (Wrapf ''error marshalling secret data'' (Lib err))
      | Inr secretData \<Rightarrow>
     (case template_Parse w (buf @ ''---'' @ [CHR 0x0A] @ secretData) of
        Inl err \<Rightarrow> Inl (Lib err)
      | Inr tpl \<Rightarrow>
     (case template_Execute w tpl (ImageRegistry options) of
        Inl err \<Rightarrow> Inl (Lib err)
      | Inr output \<Rightarrow> Inr output))))))"

text \<open>
  The result of a call: the error returned (\<open>None\<close> for nil) and the streams handed to the
  applier's \<open>Apply\<close>, in order. The applier is a function from the stream to its error.
\<close>

definition ApplyOperatorYAML ::
  "('x, 'v, 't, 'i, 'f) world \<Rightarrow> (string \<Rightarrow> 'x option) \<Rightarrow> ApplyOperatorYAMLOptions
     \<Rightarrow> 'x error option \<times> string list" where
  "ApplyOperatorYAML w applier options =
     (case renderOperatorYAML w options of
        Inl err \<Rightarrow> (Some err, [])
      | Inr output \<Rightarrow> (map_option Lib (applier output), [output]))"

section \<open>Installation manifest builder\<close>

text \<open>
  \<open>ApplyInstallationYAML\<close> (operator.go, lines 272 to 329) and the functions it calls
  (lines 331 to 443). The functions mutate the manifests through a pointer; here each
  returns the manifests it leaves behind.
\<close>

definition withSpec ::
  "('f InstallationSpec \<Rightarrow> 'f InstallationSpec) \<Rightarrow> 'f manifests \<Rightarrow> 'f manifests" where
  "withSpec f mf =
     mf\<lparr>installation := (installation mf)\<lparr>inst_Spec := f (inst_Spec (installation mf))\<rparr>\<rparr>"

definition applyCertManagerVersion ::
  "'f manifests \<Rightarrow> 'i ApplyInstallationYAMLOptions \<Rightarrow> 'x error + 'f manifests" where
  "applyCertManagerVersion manifestTemplates options =
     (if CertManagerVersion options = [] then Inr manifestTemplates
      else case spec_CertManager (inst_Spec (installation manifestTemplates)) of
             None \<Rightarrow> Inl PanicNilDereference
           | Some cm \<Rightarrow>
               Inr (withSpec (\<lambda>sp. sp\<lparr>spec_CertManager :=
                      Some (cm\<lparr>cm_Version := CertManagerVersion options\<rparr>)\<rparr>) manifestTemplates))"

definition applyCSIDriversToInstallation ::
  "'f manifests \<Rightarrow> 'i ApplyInstallationYAMLOptions \<Rightarrow> 'f manifests" where
  "applyCSIDriversToInstallation mf options =
     (let assign0 = False;
          drivers0 = \<lparr>csi_CertManager = None, csi_CertManagerSpiffe = None\<rparr>;
          (assign1, drivers1) =
             (if InstallCSIDriver options
              then (True, drivers0\<lparr>csi_CertManager := Some ()\<rparr>)
              else (assign0, drivers0));
          (assign2, drivers2) =
             (if InstallSpiffeCSIDriver options
              then (True, drivers1\<lparr>csi_CertManagerSpiffe :=
                      Some \<lparr>spiffe_ReplicaCount = Some (SpiffeCSIDriverReplicas options)\<rparr>\<rparr>)
              else (assign1, drivers1))
      in if assign2 then withSpec (\<lambda>sp. sp\<lparr>spec_CSIDrivers := Some drivers2\<rparr>) mf else mf)"

definition applyIstioCSRToInstallation ::
  "'f manifests \<Rightarrow> 'i ApplyInstallationYAMLOptions \<Rightarrow> 'x error + 'f manifests" where
  "applyIstioCSRToInstallation mf options =
     (if \<not> InstallIstioCSR options then Inr mf
      else let istio = \<lparr>istio_ReplicaCount = Some (IstioCSRReplicas options),
                        istio_IssuerRef = None\<rparr>
           in if IstioCSRIssuer options = []
              then Inr (withSpec (\<lambda>sp. sp\<lparr>spec_IstioCSR := Some istio\<rparr>) mf)
              else Inr (withSpec (\<lambda>sp. sp\<lparr>spec_IstioCSR :=
                     Some (istio\<lparr>istio_IssuerRef :=
                       Some \<lparr>ref_Name = IstioCSRIssuer options, ref_Kind = ''Issuer'',
                             ref_Group = ''cert-manager.io''\<rparr>\<rparr>)\<rparr>) mf))"

text \<open>
  The error result of \<open>applyVenafiOauthHelperToInstallation\<close> is nil on every path and its
  caller discards it, so the model returns the manifests only.
\<close>

definition applyVenafiOauthHelperToInstallation ::
  "'f manifests \<Rightarrow> 'i ApplyInstallationYAMLOptions \<Rightarrow> 'f manifests" where
  "applyVenafiOauthHelperToInstallation mf options =
     (if \<not> InstallVenafiOauthHelper options then mf
      else let imagePullSecrets = (if Credentials options \<noteq> [] then [''jse-gcr-creds''] else [])
           in withSpec (\<lambda>sp. sp\<lparr>spec_VenafiOauthHelper :=
                Some \<lparr>oauth_ImagePullSecrets = imagePullSecrets\<rparr>\<rparr>) mf)"

text \<open>The block of \<open>ApplyInstallationYAML\<close> that collects the image pull secret.\<close>

definition collectPullSecret ::
  "('x, 'v, 't, 'i, 'f) world \<Rightarrow> 'f manifests \<Rightarrow> 'i ApplyInstallationYAMLOptions
     \<Rightarrow> 'x error + 'f manifests" where
  "collectPullSecret w manifestTemplates options =
     (if Credentials options \<noteq> [] then
        (case ImagePullSecret w (Credentials options) of
           Inl err \<Rightarrow> Inl (Wrapf ''failed to parse image pull secret'' err)
         | Inr secret \<Rightarrow>
             Inr (manifestTemplates\<lparr>secrets := secrets manifestTemplates @ [secret]\<rparr>))
      else Inr manifestTemplates)"

text \<open>The loop of \<open>generateVenafiIssuerManifests\<close> over the issuer templates.\<close>

fun generateIssuers ::
  "('x, 'v, 't, 'i, 'f) world \<Rightarrow> 'f manifests \<Rightarrow> 'i list \<Rightarrow> 'x error + 'f manifests" where
  "generateIssuers w mf [] = Inr mf"
| "generateIssuers w mf (issuerTemplate # rest) =
     (case GenerateOperatorManifestsForIssuer w issuerTemplate of
        Inl err \<Rightarrow> Inl (Wrapf ''error generating manifests for Venafi issuer'' (Lib err))
      | Inr (issuer, secret) \<Rightarrow>
          generateIssuers w
            (withSpec (\<lambda>sp. sp\<lparr>spec_Issuers := spec_Issuers sp @ [issuer]\<rparr>)
               (mf\<lparr>secrets := secrets mf @ [secret]\<rparr>)) rest)"

definition generateVenafiIssuerManifests ::
  "('x, 'v, 't, 'i, 'f) world \<Rightarrow> 'f manifests \<Rightarrow> 'i ApplyInstallationYAMLOptions
     \<Rightarrow> 'x error + 'f manifests" where
  "generateVenafiIssuerManifests w mf options = generateIssuers w mf (VenafiIssuers options)"

fun marshalSecrets ::
  "('x, 'v, 't, 'i, 'f) world \<Rightarrow> string \<Rightarrow> Secret list \<Rightarrow> 'x error + string" where
  "marshalSecrets w buf [] = Inr buf"
| "marshalSecrets w buf (secret # rest) =
     (case yaml_Marshal_Secret w secret of
        Inl err \<Rightarrow> Inl (Wrapf ''failed to marshal Secret data'' (Lib err))
      | Inr secretJson \<Rightarrow> marshalSecrets w (buf @ ''---'' @ [CHR 0x0A] @ secretJson) rest)"

definition marshalManifests ::
  "('x, 'v, 't, 'i, 'f) world \<Rightarrow> 'f manifests \<Rightarrow> 'x error + string" where
  "marshalManifests w mf =
     (case yaml_Marshal_Installation w (installation mf) of
        Inl err \<Rightarrow> Inl (Wrapf ''error marshalling Installation resource'' (Lib err))
      | Inr data \<Rightarrow> marshalSecrets w data (secrets mf))"

text \<open>The skeleton \<open>ApplyInstallationYAML\<close> starts from.\<close>

definition baseManifests ::
  "('x, 'v, 't, 'i, 'f) world \<Rightarrow> 'i ApplyInstallationYAMLOptions \<Rightarrow> 'f manifests" where
  "baseManifests w options =
     \<lparr>installation =
        \<lparr>inst_Kind = snd (InstallationGVK w), inst_APIVersion = fst (InstallationGVK w),
         inst_Name = ''installation'',
         inst_Spec =
           \<lparr>spec_Registry = InstImageRegistry options,
            spec_CertManager = Some
              \<lparr>cm_Version = [],
               cm_Controller = Some \<lparr>controller_ReplicaCount = Some (CertManagerReplicas options)\<rparr>,
               cm_Webhook = Some \<lparr>webhook_ReplicaCount = Some (CertManagerReplicas options)\<rparr>\<rparr>,
            spec_ApproverPolicy = Some (),
            spec_CSIDrivers = None, spec_IstioCSR = None, spec_VenafiOauthHelper = None,
            spec_Issuers = []\<rparr>,
         inst_Conditions = []\<rparr>,
      secrets = []\<rparr>"

text \<open>
  \<open>ApplyInstallationYAML\<close> from the skeleton to the last construction step: the manifests,
  or the error of the first step that fails.
\<close>

definition buildManifests ::
  "('x, 'v, 't, 'i, 'f) world \<Rightarrow> 'i ApplyInstallationYAMLOptions \<Rightarrow> 'x error + 'f manifests" where
  "buildManifests w options =
     (case applyIstioCSRToInstallation (baseManifests w options) options of
        Inl err \<Rightarrow> Inl (Wrapf ''failed to configure istio csr'' err)
      | Inr m1 \<Rightarrow>
     (case applyCertManagerVersion m1 options of
        Inl err \<Rightarrow> Inl err
      | Inr m2 \<Rightarrow>
     (let m3 = applyCSIDriversToInstallation m2 options;
          m4 = applyVenafiOauthHelperToInstallation m3 options
      in
     (case collectPullSecret w m4 options of
        Inl err \<Rightarrow> Inl err
      | Inr m5 \<Rightarrow>
     (case generateVenafiIssuerManifests w m5 options of
        Inl err \<Rightarrow> Inl (Wrapf ''error building manifests for Venafi issuers'' err)
      | Inr m6 \<Rightarrow> Inr m6)))))"

definition renderInstallationYAML ::
  "('x, 'v, 't, 'i, 'f) world \<Rightarrow> 'i ApplyInstallationYAMLOptions \<Rightarrow> 'x error + string" where
  "renderInstallationYAML w options =
     (case buildManifests w options of
        Inl err \<Rightarrow> Inl err
      | Inr manifestTemplates \<Rightarrow>
          (case marshalManifests w manifestTemplates of
             Inl err \<Rightarrow> Inl (Wrapf ''error marshalling manifests'' err)
           | Inr buf \<Rightarrow> Inr buf))"

definition ApplyInstallationYAML ::
  "('x, 'v, 't, 'i, 'f) world \<Rightarrow> (string \<Rightarrow> 'x option) \<Rightarrow> 'i ApplyInstallationYAMLOptions
     \<Rightarrow> 'x error option \<times> string list" where
  "ApplyInstallationYAML w applier options =
     (case renderInstallationYAML w options of
        Inl err \<Rightarrow> (Some err, [])
      | Inr buf \<Rightarrow> (map_option Lib (applier buf), [buf]))"

section \<open>Status reader\<close>

text \<open>\<open>componentNames\<close> and \<open>Status\<close> (operator.go, lines 509 to 568).\<close>

fun componentNames :: "InstallationConditionType \<Rightarrow> string option" where
  "componentNames InstallationConditionCertManagerReady = Some ''cert-manager''"
| "componentNames InstallationConditionCertManagerIssuersReady = Some ''issuers''"
| "componentNames InstallationConditionCSIDriversReady = Some ''csi-driver''"
| "componentNames InstallationConditionIstioCSRReady = Some ''istio-csr''"
| "componentNames InstallationConditionApproverPolicyReady = Some ''approver-policy''"
| "componentNames InstallationConditionVenafiOauthHelperReady = Some ''venafi-oauth-helper''"
| "componentNames InstallationConditionManifestsReady = Some ''manifests''"
| "componentNames (OtherType t) = None"

text \<open>The loop of \<open>Status\<close> over the conditions, appending to \<open>statuses\<close>.\<close>

fun collectStatuses ::
  "ComponentStatus list \<Rightarrow> InstallationCondition list \<Rightarrow> ComponentStatus list" where
  "collectStatuses statuses [] = statuses"
| "collectStatuses statuses (condition # rest) =
     (let ready = (cond_Status condition = ConditionTrue);
          componentStatus =
            \<lparr>Name = [], Ready = ready,
             Message = (if \<not> ready then cond_Message condition else [])\<rparr>
      in case componentNames (cond_Type condition) of
           None \<Rightarrow> collectStatuses statuses rest
         | Some componentName \<Rightarrow>
             collectStatuses (statuses @ [componentStatus\<lparr>Name := componentName\<rparr>]) rest)"

definition Status :: "('x, 'v, 't, 'i, 'f) world \<Rightarrow> 'x error + ComponentStatus list" where
  "Status w =
     (case client_Get w of
        Inl err \<Rightarrow> (if IsNotFound w err then Inl ErrNoInstallation else Inl (Lib err))
      | Inr inst \<Rightarrow>
          Inr (insertionSort (\<lambda>a b. Name a < Name b)
                 (collectStatuses [] (inst_Conditions inst))))"

section \<open>The construction steps as a sequence\<close>

text \<open>
  The six mutation steps of \<open>ApplyInstallationYAML\<close>, each with the error wrapping of its
  call site, and their execution in a given order from given manifests.
\<close>

datatype step =
    StepIstioCSR
  | StepCertManagerVersion
  | StepCSIDrivers
  | StepVenafiOauthHelper
  | StepPullSecret
  | StepVenafiIssuers

fun runStep ::
  "('x, 'v, 't, 'i, 'f) world \<Rightarrow> 'i ApplyInstallationYAMLOptions \<Rightarrow> step \<Rightarrow> 'f manifests
     \<Rightarrow> 'x error + 'f manifests" where
  "runStep w options StepIstioCSR mf =
     (case applyIstioCSRToInstallation mf options of
        Inl err \<Rightarrow> Inl (Wrapf ''failed to configure istio csr'' err)
      | Inr mf' \<Rightarrow> Inr mf')"
| "runStep w options StepCertManagerVersion mf = applyCertManagerVersion mf options"
| "runStep w options StepCSIDrivers mf = Inr (applyCSIDriversToInstallation mf options)"
| "runStep w options StepVenafiOauthHelper mf =
     Inr (applyVenafiOauthHelperToInstallation mf options)"
| "runStep w options StepPullSecret mf = collectPullSecret w mf options"
| "runStep w options StepVenafiIssuers mf =
     (case generateVenafiIssuerManifests w mf options of
        Inl err \<Rightarrow> Inl (Wrapf ''error building manifests for Venafi issuers'' err)
      | Inr mf' \<Rightarrow> Inr mf')"

fun runSteps ::
  "('x, 'v, 't, 'i, 'f) world \<Rightarrow> 'i ApplyInstallationYAMLOptions \<Rightarrow> step list \<Rightarrow> 'f manifests
     \<Rightarrow> 'x error + 'f manifests" where
  "runSteps w options [] mf = Inr mf"
| "runSteps w options (s # ss) mf =
     (case runStep w options s mf of
        Inl err \<Rightarrow> Inl err
      | Inr mf' \<Rightarrow> runSteps w options ss mf')"

definition implementedOrder :: "step list" where
  "implementedOrder =
     [StepIstioCSR, StepCertManagerVersion, StepCSIDrivers, StepVenafiOauthHelper,
      StepPullSecret, StepVenafiIssuers]"

text \<open>The steps that append to the collected secrets.\<close>

fun appendsSecrets :: "step \<Rightarrow> bool" where
  "appendsSecrets StepPullSecret = True"
| "appendsSecrets StepVenafiIssuers = True"
| "appendsSecrets _ = False"

text \<open>
  What a step other than the two above does to manifests whose cert-manager field is set,
  as a total function.
\<close>

fun fieldStep :: "'i ApplyInstallationYAMLOptions \<Rightarrow> step \<Rightarrow> 'f manifests \<Rightarrow> 'f manifests" where
  "fieldStep options StepIstioCSR mf =
     (if \<not> InstallIstioCSR options then mf
      else withSpec (\<lambda>sp. sp\<lparr>spec_IstioCSR := Some
             \<lparr>istio_ReplicaCount = Some (IstioCSRReplicas options),
              istio_IssuerRef =
                (if IstioCSRIssuer options = [] then None
                 else Some \<lparr>ref_Name = IstioCSRIssuer options, ref_Kind = ''Issuer'',
                            ref_Group = ''cert-manager.io''\<rparr>)\<rparr>\<rparr>) mf)"
| "fieldStep options StepCertManagerVersion mf =
     (if CertManagerVersion options = [] then mf
      else withSpec (\<lambda>sp. sp\<lparr>spec_CertManager :=
             map_option (\<lambda>cm. cm\<lparr>cm_Version := CertManagerVersion options\<rparr>)
               (spec_CertManager sp)\<rparr>) mf)"
| "fieldStep options StepCSIDrivers mf = applyCSIDriversToInstallation mf options"
| "fieldStep options StepVenafiOauthHelper mf = applyVenafiOauthHelperToInstallation mf options"
| "fieldStep options s mf = mf"

section \<open>Assumptions on the semver library\<close>

text \<open>
  \<open>LessThan\<close> is a strict weak order: asymmetric, and its negation is transitive.
\<close>

definition strictWeakOrder :: "('a \<Rightarrow> 'a \<Rightarrow> bool) \<Rightarrow> bool" where
  "strictWeakOrder lt \<longleftrightarrow>
     (\<forall>a b. lt a b \<longrightarrow> \<not> lt b a) \<and> (\<forall>a b c. \<not> lt a b \<longrightarrow> \<not> lt b c \<longrightarrow> \<not> lt a c)"

section \<open>Concrete collaborators for evaluation\<close>

text \<open>
  The theorems hold for every collaborator. To evaluate them on concrete inputs the
  following stand in for the libraries: a semver library for plain versions
  (\<open>MAJOR[.MINOR[.PATCH]]\<close> with an optional leading \<open>v\<close>, no pre-release or metadata), a
  template engine for text and field actions, JSON for strings that need no escaping, and
  the YAML of a secret (keys in alphabetical order, data values in base64, as
  \<open>sigs.k8s.io/yaml\<close> renders \<open>map[string][]byte\<close>).
\<close>

definition digitValue :: "char \<Rightarrow> nat option" where
  "digitValue c =
     (let n = (of_char c :: nat) in if 48 \<le> n \<and> n \<le> 57 then Some (n - 48) else None)"

fun parseUint :: "nat \<Rightarrow> string \<Rightarrow> nat option" where
  "parseUint acc [] = Some acc"
| "parseUint acc (c # cs) =
     (case digitValue c of None \<Rightarrow> None | Some d \<Rightarrow> parseUint (acc * 10 + d) cs)"

definition parseSegment :: "string \<Rightarrow> nat option" where
  "parseSegment s = (if s = [] then None else parseUint 0 s)"

fun splitDot :: "string \<Rightarrow> string list" where
  "splitDot [] = [[]]"
| "splitDot (c # cs) =
     (if c = CHR ''.'' then [] # splitDot cs
      else case splitDot cs of
             [] \<Rightarrow> [[c]]
           | e # es \<Rightarrow> (c # e) # es)"

definition plainNewVersion :: "string \<Rightarrow> string + nat \<times> nat \<times> nat" where
  "plainNewVersion s =
     (let body = (case s of c # cs \<Rightarrow> if c = CHR ''v'' then cs else s | [] \<Rightarrow> s)
      in case map parseSegment (splitDot body) of
           [Some a] \<Rightarrow> Inr (a, 0, 0)
         | [Some a, Some b] \<Rightarrow> Inr (a, b, 0)
         | [Some a, Some b, Some c] \<Rightarrow> Inr (a, b, c)
         | _ \<Rightarrow> Inl ''Invalid Semantic Version'')"

fun plainLessThan :: "nat \<times> nat \<times> nat \<Rightarrow> nat \<times> nat \<times> nat \<Rightarrow> bool" where
  "plainLessThan (a, b, c) (a', b', c') =
     (a < a' \<or> a = a' \<and> (b < b' \<or> b = b' \<and> c < c'))"

function showNat :: "nat \<Rightarrow> string" where
  "showNat n =
     (if n < 10 then [char_of (48 + n)]
      else showNat (n div 10) @ [char_of (48 + n mod 10)])"
  by pat_completeness auto
termination
  by (relation "measure id") auto

declare showNat.simps [simp del]

fun plainString :: "nat \<times> nat \<times> nat \<Rightarrow> string" where
  "plainString (a, b, c) = showNat a @ ''.'' @ showNat b @ ''.'' @ showNat c"

datatype tnode = TextNode string | FieldNode string

definition flushText :: "string \<Rightarrow> tnode list \<Rightarrow> tnode list" where
  "flushText txt nodes = (if txt = [] then nodes else TextNode (rev txt) # nodes)"

definition isIdentChar :: "char \<Rightarrow> bool" where
  "isIdentChar c =
     (let n = (of_char c :: nat)
      in (48 \<le> n \<and> n \<le> 57) \<or> (65 \<le> n \<and> n \<le> 90) \<or> (97 \<le> n \<and> n \<le> 122) \<or> n = 95)"

text \<open>The body of a field action: spaces, a dot, an identifier, spaces.\<close>

definition fieldOf :: "string \<Rightarrow> string option" where
  "fieldOf body =
     (let b = dropWhile (\<lambda>c. c = CHR '' '') body;
          b' = rev (dropWhile (\<lambda>c. c = CHR '' '') (rev b))
      in case b' of
           c # name \<Rightarrow>
             (if c = CHR ''.'' \<and> name \<noteq> [] \<and> (\<forall>d \<in> set name. isIdentChar d)
              then Some name else None)
         | [] \<Rightarrow> None)"

text \<open>
  One pass over the template text. The first argument is the body of the action being read
  (\<open>None\<close> while in text), the second the text read since the last action, the third the
  nodes so far, last first. An action opens at \<open>{{\<close> and closes at the next \<open>}}\<close>.
\<close>

fun scanTemplate ::
  "string option \<Rightarrow> string \<Rightarrow> tnode list \<Rightarrow> string \<Rightarrow> string + tnode list" where
  "scanTemplate None txt nodes [] = Inr (rev (flushText txt nodes))"
| "scanTemplate (Some body) txt nodes [] = Inl ''unclosed action''"
| "scanTemplate None txt nodes (c # cs) =
     (case cs of
        d # ds \<Rightarrow>
          (if c = CHR ''{'' \<and> d = CHR ''{'' then scanTemplate (Some []) [] (flushText txt nodes) ds
           else scanTemplate None (c # txt) nodes cs)
      | [] \<Rightarrow> scanTemplate None (c # txt) nodes cs)"
| "scanTemplate (Some body) txt nodes (c # cs) =
     (case cs of
        d # ds \<Rightarrow>
          (if c = CHR ''}'' \<and> d = CHR ''}'' then
             (case fieldOf (rev body) of
                None \<Rightarrow> Inl ''unsupported action''
              | Some name \<Rightarrow> scanTemplate None [] (FieldNode name # nodes) ds)
           else scanTemplate (Some (c # body)) txt nodes cs)
      | [] \<Rightarrow> scanTemplate (Some (c # body)) txt nodes cs)"

definition plainParse :: "string \<Rightarrow> string + tnode list" where
  "plainParse text = scanTemplate None [] [] text"

text \<open>
  Execution with the data \<open>map[string]interface{}{"ImageRegistry": registry}\<close>: a field that
  is not a key of the map prints as \<open><no value>\<close>.
\<close>

fun executeNode :: "string \<Rightarrow> tnode \<Rightarrow> string" where
  "executeNode registry (TextNode t) = t"
| "executeNode registry (FieldNode name) =
     (if name = ''ImageRegistry'' then registry else ''<no value>'')"

definition plainExecute :: "tnode list \<Rightarrow> string \<Rightarrow> string + string" where
  "plainExecute tpl registry = Inr (concat (map (executeNode registry) tpl))"

definition plainJSONEntry :: "string \<times> ConfigEntry \<Rightarrow> string" where
  \<open>plainJSONEntry he =
     ''"'' @ fst he @ ''":{"username":"'' @ Username (snd he) @ ''","password":"''
       @ Password (snd he) @ ''","email":"'' @ Email (snd he) @ ''","auth":"''
       @ Auth (snd he) @ ''"}''\<close>

fun joinComma :: "string list \<Rightarrow> string" where
  "joinComma [] = []"
| "joinComma [e] = e"
| "joinComma (e # es) = e @ CHR '','' # joinComma es"

definition plainJSON :: "ConfigJSON \<Rightarrow> string + string" where
  \<open>plainJSON config = Inr (''{"auths":{'' @ joinComma (map plainJSONEntry (Auths config)) @ ''}}'')\<close>

definition nl :: string where
  "nl = [CHR 0x0A]"

definition plainYAMLSecret :: "Secret \<Rightarrow> string" where
  "plainYAMLSecret secret =
     ''apiVersion: '' @ secret_APIVersion secret @ nl
     @ ''data:'' @ nl
     @ concat (map (\<lambda>kv. ''  '' @ fst kv @ '': '' @ EncodeToString (snd kv) @ nl)
                 (secret_Data secret))
     @ ''kind: '' @ secret_Kind secret @ nl
     @ ''metadata:'' @ nl
     @ ''  creationTimestamp: null'' @ nl
     @ ''  name: '' @ secret_Name secret @ nl
     @ ''  namespace: '' @ secret_Namespace secret @ nl
     @ ''type: '' @ secret_Type secret @ nl"

text \<open>
  A stand-in for \<open>yaml.Marshal\<close> of an installation that renders its header only; no theorem
  depends on the text it produces.
\<close>

definition headerYAMLInstallation :: "'f Installation \<Rightarrow> string" where
  "headerYAMLInstallation inst =
     ''apiVersion: '' @ inst_APIVersion inst @ nl
     @ ''kind: '' @ inst_Kind inst @ nl
     @ ''metadata:'' @ nl
     @ ''  name: '' @ inst_Name inst @ nl"

text \<open>
  A world from the embedded entries, the files, the JSON encoder, the issuer generator and
  the fetch result; issuer templates, issuer fragments and library errors are strings.
\<close>

definition sampleWorld ::
  "(string \<times> fsnode) list \<Rightarrow> (string \<Rightarrow> string keyfile) \<Rightarrow> (ConfigJSON \<Rightarrow> string + string)
     \<Rightarrow> (string \<Rightarrow> string + (string \<times> Secret)) \<Rightarrow> (string + string Installation)
     \<Rightarrow> (string, nat \<times> nat \<times> nat, tnode list, string, string) world" where
  "sampleWorld entries files json gen fetch =
     \<lparr>installers = entries,
      os_ReadFile = files,
      semver_NewVersion = plainNewVersion,
      semver_LessThan = plainLessThan,
      semver_String = plainString,
      json_Marshal = json,
      yaml_Marshal_Secret = (\<lambda>secret. Inr (plainYAMLSecret secret)),
      yaml_Marshal_Installation = (\<lambda>inst. Inr (headerYAMLInstallation inst)),
      template_Parse = plainParse,
      template_Execute = plainExecute,
      GenerateOperatorManifestsForIssuer = gen,
      InstallationGVK = (''operator.jetstack.io/v1alpha1'', ''Installation''),
      client_Get = fetch,
      IsNotFound = (\<lambda>err. err = ''NotFound'')\<rparr>"

definition noFiles :: "string \<Rightarrow> string keyfile" where
  "noFiles path = NotExist"

definition oneFile :: "string \<Rightarrow> string \<Rightarrow> string \<Rightarrow> string keyfile" where
  "oneFile name contents path = (if path = name then Contents contents else NotExist)"

definition noIssuers :: "string \<Rightarrow> string + (string \<times> Secret)" where
  "noIssuers template = Inl ''no issuer generator''"

definition noCluster :: "string + string Installation" where
  "noCluster = Inl ''connection refused''"

section \<open>Definitions used in the statements and their evaluation\<close>

definition csiField :: "'f manifests \<Rightarrow> CSIDrivers option" where
  "csiField mf = spec_CSIDrivers (inst_Spec (installation mf))"

definition csiOptions :: "bool \<Rightarrow> bool \<Rightarrow> string ApplyInstallationYAMLOptions" where
  "csiOptions csi spiffe =
     \<lparr>InstallCSIDriver = csi, InstallSpiffeCSIDriver = spiffe, InstallIstioCSR = False,
      InstallVenafiOauthHelper = False, VenafiIssuers = [], IstioCSRIssuer = [],
      InstImageRegistry = [], Credentials = [], CertManagerReplicas = 2,
      CertManagerVersion = [], IstioCSRReplicas = 1, SpiffeCSIDriverReplicas = 3\<rparr>"

text \<open>
  The entry the specification gives for a condition: none for a type without a friendly
  name; otherwise the friendly name, ready exactly when the status is the true sentinel, and
  the message only when not ready.
\<close>

definition specStatusEntry :: "InstallationCondition \<Rightarrow> ComponentStatus option" where
  "specStatusEntry c =
     (case componentNames (cond_Type c) of
        None \<Rightarrow> None
      | Some n \<Rightarrow>
          Some \<lparr>Name = n, Ready = (cond_Status c = ConditionTrue),
                Message = (if cond_Status c = ConditionTrue then [] else cond_Message c)\<rparr>)"

definition exampleConditions :: "InstallationCondition list" where
  "exampleConditions =
     [\<lparr>cond_Type = InstallationConditionCertManagerReady, cond_Status = ConditionTrue,
       cond_Message = []\<rparr>,
      \<lparr>cond_Type = InstallationConditionIstioCSRReady, cond_Status = OtherStatus ''False'',
       cond_Message = ''pending''\<rparr>,
      \<lparr>cond_Type = OtherType ''UnknownType'', cond_Status = ConditionTrue, cond_Message = []\<rparr>]"

definition fetched :: "InstallationCondition list \<Rightarrow> string + string Installation" where
  "fetched cs =
     Inr ((installation (baseManifests (sampleWorld [] noFiles plainJSON noIssuers noCluster)
            (csiOptions False False)))\<lparr>inst_Conditions := cs\<rparr>)"

text \<open>Issuer templates, a generator and options for evaluation.\<close>

definition sampleIssuerSecret :: "string \<Rightarrow> Secret" where
  "sampleIssuerSecret name =
     \<lparr>secret_APIVersion = ''v1'', secret_Kind = ''Secret'', secret_Name = name,
      secret_Namespace = ''jetstack-secure'', secret_Type = ''Opaque'',
      secret_Data = [(''access-token'', ''token'')]\<rparr>"

definition sampleGenerator :: "string \<Rightarrow> string + (string \<times> Secret)" where
  "sampleGenerator template =
     (if template = ''bad'' then Inl ''invalid issuer template''
      else Inr (template, sampleIssuerSecret template))"

definition issuerOptions :: "string list \<Rightarrow> string \<Rightarrow> string ApplyInstallationYAMLOptions" where
  "issuerOptions issuers credentials =
     \<lparr>InstallCSIDriver = True, InstallSpiffeCSIDriver = False, InstallIstioCSR = True,
      InstallVenafiOauthHelper = True, VenafiIssuers = issuers, IstioCSRIssuer = ''tpp'',
      InstImageRegistry = ''eu.gcr.io/jetstack-secure-enterprise'', Credentials = credentials,
      CertManagerReplicas = 2, CertManagerVersion = ''v1.9.1'', IstioCSRReplicas = 1,
      SpiffeCSIDriverReplicas = 3\<rparr>"

definition applyOK :: "string \<Rightarrow> string option" where
  "applyOK stream = None"

text \<open>Orders of the steps, and a world with a key file, for evaluation.\<close>

definition hasCertManager :: "'f manifests \<Rightarrow> bool" where
  "hasCertManager mf \<longleftrightarrow> spec_CertManager (inst_Spec (installation mf)) \<noteq> None"

definition swappedOrder :: "step list" where
  "swappedOrder =
     [StepIstioCSR, StepCertManagerVersion, StepCSIDrivers, StepVenafiOauthHelper,
      StepVenafiIssuers, StepPullSecret]"

definition permutedOrder :: "step list" where
  "permutedOrder =
     [StepCSIDrivers, StepPullSecret, StepVenafiOauthHelper, StepCertManagerVersion,
      StepVenafiIssuers, StepIstioCSR]"

definition keyWorld :: "(string, nat \<times> nat \<times> nat, tnode list, string, string) world" where
  "keyWorld = sampleWorld [] (oneFile ''key.json'' ''ABC123'') plainJSON sampleGenerator noCluster"

text \<open>Embedded installers, a world over them, and renderer options, for evaluation.\<close>

definition sampleInstallers :: "(string \<times> fsnode) list" where
  "sampleInstallers =
     [(''v1.10.0.yaml'', File (''image: {{ .ImageRegistry }}/js-operator:v1.10.0'' @ nl)),
      (''v1.2.0.yaml'', File (''image: {{ .ImageRegistry }}/js-operator:v1.2.0'' @ nl))]"

definition installerWorld ::
  "(string \<Rightarrow> string keyfile) \<Rightarrow> (ConfigJSON \<Rightarrow> string + string)
     \<Rightarrow> (string, nat \<times> nat \<times> nat, tnode list, string, string) world" where
  "installerWorld files json = sampleWorld sampleInstallers files json noIssuers noCluster"

definition operatorOptions :: "string \<Rightarrow> ApplyOperatorYAMLOptions" where
  "operatorOptions version =
     \<lparr>Version = version, ImageRegistry = ''eu.gcr.io/jetstack-secure-enterprise'',
      CredentialsLocation = ''key.json''\<rparr>"

text \<open>An embedded directory with a file name that is not a version.\<close>

definition brokenInstallers :: "(string \<times> fsnode) list" where
  "brokenInstallers =
     [(''latest.yaml'', File (''image: {{ .ImageRegistry }}/js-operator:latest'' @ nl)),
      (''v1.2.0.yaml'', File (''image: {{ .ImageRegistry }}/js-operator:v1.2.0'' @ nl))]"

definition brokenWorld :: "(string, nat \<times> nat \<times> nat, tnode list, string, string) world" where
  "brokenWorld = sampleWorld brokenInstallers noFiles plainJSON noIssuers noCluster"

section \<open>Properties of the library models\<close>

subsection \<open>base64: decoding what was encoded\<close>























lemma enc_in_alphabet: "enc n \<in> set encodeStd"
proof -
  have "n mod 64 < length encodeStd" by (simp add: encodeStd_def)
  then show ?thesis unfolding enc_def by (rule nth_mem)
qed

lemma EncodeToString_chars:
  "set (EncodeToString s) \<subseteq> insert (CHR ''='') (set encodeStd)"
  by (induction s rule: EncodeToString.induct) (auto simp: Let_def enc_in_alphabet)

lemma EncodeToString_no_brace:
  "CHR ''{'' \<notin> set (EncodeToString s)" "CHR ''}'' \<notin> set (EncodeToString s)"
proof -
  have "CHR ''{'' \<notin> insert (CHR ''='') (set encodeStd)"
    and "CHR ''}'' \<notin> insert (CHR ''='') (set encodeStd)"
    by (simp_all add: encodeStd_def)
  with EncodeToString_chars [of s]
  show "CHR ''{'' \<notin> set (EncodeToString s)" and "CHR ''}'' \<notin> set (EncodeToString s)"
    by blast+
qed

subsection \<open>Insertion sort\<close>

lemma mset_insertionStep: "mset (insertionStep lt x ys) = add_mset x (mset ys)"
  by (induction ys) auto

lemma mset_fold_insertionStep:
  "mset (fold (insertionStep lt) xs acc) = mset xs + mset acc"
  by (induction xs arbitrary: acc) (auto simp: mset_insertionStep)

lemma mset_insertionSort: "mset (insertionSort lt xs) = mset xs"
  by (simp add: insertionSort_def mset_fold_insertionStep)

lemma set_insertionStep: "set (insertionStep lt x ys) = insert x (set ys)"
  by (induction ys) auto

lemma descending_insertionStep:
  assumes "strictWeakOrder lt" and "sorted_wrt (\<lambda>a b. \<not> lt a b) ys"
  shows "sorted_wrt (\<lambda>a b. \<not> lt a b) (insertionStep lt x ys)"
  using assms(2)
proof (induction ys)
  case Nil
  then show ?case by simp
next
  case (Cons y ys)
  have asym: "\<And>a b. lt a b \<Longrightarrow> \<not> lt b a"
    and ntrans: "\<And>a b c. \<not> lt a b \<Longrightarrow> \<not> lt b c \<Longrightarrow> \<not> lt a c"
    using assms(1) unfolding strictWeakOrder_def by blast+
  show ?case
  proof (cases "lt x y")
    case True
    with Cons asym show ?thesis by (auto simp: set_insertionStep)
  next
    case False
    with Cons ntrans show ?thesis by auto
  qed
qed

lemma descending_fold:
  assumes "strictWeakOrder lt" and "sorted_wrt (\<lambda>a b. \<not> lt a b) acc"
  shows "sorted_wrt (\<lambda>a b. \<not> lt a b) (fold (insertionStep lt) xs acc)"
  using assms(2)
  by (induction xs arbitrary: acc) (auto intro: descending_insertionStep [OF assms(1)])

lemma sorted_insertionSort:
  assumes "strictWeakOrder lt"
  shows "sorted_wrt (\<lambda>a b. \<not> lt b a) (insertionSort lt xs)"
  using descending_fold [OF assms, of "[]" xs]
  by (simp add: insertionSort_def sorted_wrt_rev)

section \<open>The CSI-driver field\<close>

lemma generateIssuers_csi:
  "generateIssuers w mf ts = Inr mf' \<Longrightarrow> csiField mf' = csiField mf"
  by (induction ts arbitrary: mf) (auto simp: csiField_def withSpec_def split: sum.splits)

lemma csi_after_apply:
  "csiField (applyCSIDriversToInstallation mf options) =
     (if InstallCSIDriver options \<or> InstallSpiffeCSIDriver options then
        Some \<lparr>csi_CertManager = (if InstallCSIDriver options then Some () else None),
              csi_CertManagerSpiffe =
                (if InstallSpiffeCSIDriver options
                 then Some \<lparr>spiffe_ReplicaCount = Some (SpiffeCSIDriverReplicas options)\<rparr>
                 else None)\<rparr>
      else csiField mf)"
  by (simp add: applyCSIDriversToInstallation_def csiField_def withSpec_def)

lemma csi_istio:
  "applyIstioCSRToInstallation mf options = Inr mf' \<Longrightarrow> csiField mf' = csiField mf"
  by (auto simp: applyIstioCSRToInstallation_def csiField_def withSpec_def Let_def split: if_splits)

lemma csi_version:
  "applyCertManagerVersion mf options = Inr mf' \<Longrightarrow> csiField mf' = csiField mf"
  by (auto simp: applyCertManagerVersion_def csiField_def withSpec_def split: if_splits option.splits)

lemma csi_oauth:
  "csiField (applyVenafiOauthHelperToInstallation mf options) = csiField mf"
  by (simp add: applyVenafiOauthHelperToInstallation_def csiField_def withSpec_def)

lemma csi_pull:
  "collectPullSecret w mf options = Inr mf' \<Longrightarrow> csiField mf' = csiField mf"
  by (auto simp: collectPullSecret_def csiField_def split: if_splits sum.splits)

lemma csi_base: "csiField (baseManifests w options) = None"
  by (simp add: baseManifests_def csiField_def)

lemma buildManifests_InrD:
  fixes w :: "('x, 'v, 't, 'i, 'f) world"
  assumes "buildManifests w options = Inr mf"
  shows "\<exists>m1 m2 m5.
     applyIstioCSRToInstallation (baseManifests w options) options = (Inr m1 :: 'x error + 'f manifests)
     \<and> applyCertManagerVersion m1 options = (Inr m2 :: 'x error + 'f manifests)
     \<and> collectPullSecret w
         (applyVenafiOauthHelperToInstallation (applyCSIDriversToInstallation m2 options) options)
         options = Inr m5
     \<and> generateIssuers w m5 (VenafiIssuers options) = Inr mf"
  using assms
  by (auto simp: buildManifests_def generateVenafiIssuerManifests_def Let_def split: sum.splits)

lemma csi_build:
  fixes w :: "('x, 'v, 't, 'i, 'f) world"
  assumes "buildManifests w options = Inr mf"
  shows "csiField mf =
     (if InstallCSIDriver options \<or> InstallSpiffeCSIDriver options then
        Some \<lparr>csi_CertManager = (if InstallCSIDriver options then Some () else None),
              csi_CertManagerSpiffe =
                (if InstallSpiffeCSIDriver options
                 then Some \<lparr>spiffe_ReplicaCount = Some (SpiffeCSIDriverReplicas options)\<rparr>
                 else None)\<rparr>
      else None)"
proof -
  from buildManifests_InrD [OF assms] obtain m1 m2 m5 where
    s1: "applyIstioCSRToInstallation (baseManifests w options) options
           = (Inr m1 :: 'x error + 'f manifests)" and
    s2: "applyCertManagerVersion m1 options = (Inr m2 :: 'x error + 'f manifests)" and
    s5: "collectPullSecret w
           (applyVenafiOauthHelperToInstallation (applyCSIDriversToInstallation m2 options) options)
           options = Inr m5" and
    s6: "generateIssuers w m5 (VenafiIssuers options) = Inr mf"
    by blast
  have "csiField m2 = None"
    using csi_version [OF s2] csi_istio [OF s1] csi_base by metis
  moreover have "csiField mf = csiField (applyCSIDriversToInstallation m2 options)"
    using generateIssuers_csi [OF s6] csi_pull [OF s5] csi_oauth by metis
  ultimately show ?thesis
    by (simp add: csi_after_apply)
qed

text \<open>
  C1. In the manifests that \<open>ApplyInstallationYAML\<close> builds, the CSI-driver field of the
  installation is nil exactly when both \<open>InstallCSIDriver\<close> and \<open>InstallSpiffeCSIDriver\<close>
  are false; when at least one is true the field is set, and each of its two sub-fields is
  set exactly when its own flag is true (the spiffe one with the configured replica count).
\<close>

theorem csi_drivers_present_iff_flag:
  assumes "buildManifests w options = Inr mf"
  shows "(spec_CSIDrivers (inst_Spec (installation mf)) = None
            \<longleftrightarrow> \<not> InstallCSIDriver options \<and> \<not> InstallSpiffeCSIDriver options)
       \<and> (InstallCSIDriver options \<or> InstallSpiffeCSIDriver options \<longrightarrow>
            spec_CSIDrivers (inst_Spec (installation mf)) =
              Some \<lparr>csi_CertManager = (if InstallCSIDriver options then Some () else None),
                    csi_CertManagerSpiffe =
                      (if InstallSpiffeCSIDriver options
                       then Some \<lparr>spiffe_ReplicaCount = Some (SpiffeCSIDriverReplicas options)\<rparr>
                       else None)\<rparr>)"
  using csi_build [OF assms] by (simp add: csiField_def)

theorem csi_drivers_present_iff_flag_witness:
  "\<exists>mf. buildManifests (sampleWorld [] noFiles plainJSON noIssuers noCluster)
            (csiOptions False True) = Inr mf
     \<and> spec_CSIDrivers (inst_Spec (installation mf)) =
         Some \<lparr>csi_CertManager = None,
               csi_CertManagerSpiffe = Some \<lparr>spiffe_ReplicaCount = Some 3\<rparr>\<rparr>"
proof -
  obtain mf where h:
    "buildManifests (sampleWorld [] noFiles plainJSON noIssuers noCluster)
       (csiOptions False True) = Inr mf"
    by (simp add: buildManifests_def csiOptions_def applyIstioCSRToInstallation_def
          applyCertManagerVersion_def collectPullSecret_def generateVenafiIssuerManifests_def)
  from csi_drivers_present_iff_flag [OF h] show ?thesis
    using h by (simp add: csiOptions_def)
qed

section \<open>The status reader\<close>

lemma strictWeakOrder_Name: "strictWeakOrder (\<lambda>a b. Name a < Name (b :: ComponentStatus))"
  unfolding strictWeakOrder_def by auto

lemma collectStatuses_eq:
  "collectStatuses statuses cs = statuses @ List.map_filter specStatusEntry cs"
  by (induction cs arbitrary: statuses)
     (auto simp: List.map_filter_simps specStatusEntry_def Let_def split: option.splits)

lemma example_status:
  "Status (sampleWorld [] noFiles plainJSON noIssuers (fetched exampleConditions))
     = Inr [\<lparr>Name = ''cert-manager'', Ready = True, Message = []\<rparr>,
            \<lparr>Name = ''istio-csr'', Ready = False, Message = ''pending''\<rparr>]"
  by (simp add: Status_def sampleWorld_def fetched_def exampleConditions_def insertionSort_def)

text \<open>
  C7. When the fetch succeeds, \<open>Status\<close> returns, without error, exactly the entries that
  \<open>specStatusEntry\<close> gives for the conditions whose type has a friendly name (one entry
  per such condition, the others dropped): ready exactly when the condition status is the
  true sentinel, with the message only when not ready. The result is sorted ascending by
  friendly name, and a ready entry carries no message.
\<close>

theorem status_entries:
  assumes "client_Get w = Inr inst"
  shows "\<exists>sts. Status w = Inr sts
           \<and> mset sts = mset (List.map_filter specStatusEntry (inst_Conditions inst))
           \<and> sorted (map Name sts)
           \<and> (\<forall>s \<in> set sts. Ready s \<longrightarrow> Message s = [])"
proof -
  let ?sts = "insertionSort (\<lambda>a b. Name a < Name b) (collectStatuses [] (inst_Conditions inst))"
  have 1: "Status w = Inr ?sts" using assms by (simp add: Status_def)
  have 2: "mset ?sts = mset (List.map_filter specStatusEntry (inst_Conditions inst))"
    by (simp add: mset_insertionSort collectStatuses_eq)
  have "sorted_wrt (\<lambda>a b. \<not> Name b < Name a) ?sts"
    by (rule sorted_insertionSort [OF strictWeakOrder_Name])
  then have 3: "sorted (map Name ?sts)"
    by (simp add: sorted_map not_less)
  have "\<forall>s \<in> set (List.map_filter specStatusEntry (inst_Conditions inst)).
          Ready s \<longrightarrow> Message s = []"
    by (auto simp: List.map_filter_def specStatusEntry_def split: option.splits)
  then have 4: "\<forall>s \<in> set ?sts. Ready s \<longrightarrow> Message s = []"
    using 2 by (metis set_mset_mset)
  from 1 2 3 4 show ?thesis by blast
qed

theorem status_entries_witness:
  "Status (sampleWorld [] noFiles plainJSON noIssuers (fetched exampleConditions))
     = Inr [\<lparr>Name = ''cert-manager'', Ready = True, Message = []\<rparr>,
            \<lparr>Name = ''istio-csr'', Ready = False, Message = ''pending''\<rparr>]
   \<and> mset [\<lparr>Name = ''cert-manager'', Ready = True, Message = []\<rparr>,
            \<lparr>Name = ''istio-csr'', Ready = False, Message = ''pending''\<rparr>]
       = mset (List.map_filter specStatusEntry exampleConditions)
   \<and> Ready \<lparr>Name = ''cert-manager'', Ready = True, Message = []\<rparr>"
proof -
  obtain inst where h:
    "client_Get (sampleWorld [] noFiles plainJSON noIssuers (fetched exampleConditions))
       = Inr inst"
    and c: "inst_Conditions inst = exampleConditions"
    by (simp add: sampleWorld_def fetched_def)
  from status_entries [OF h] show ?thesis
    by (simp add: example_status c)
qed

text \<open>
  C8. \<open>Status\<close> fails with \<open>ErrNoInstallation\<close> exactly when the fetch fails with an error
  that \<open>kerrors.IsNotFound\<close> accepts; any other fetch error is returned as it is; and
  whenever the fetch fails, no statuses are returned.
\<close>

theorem status_errors:
  "(Status w = Inl ErrNoInstallation \<longleftrightarrow> (\<exists>err. client_Get w = Inl err \<and> IsNotFound w err))
   \<and> (\<forall>err. client_Get w = Inl err \<and> \<not> IsNotFound w err \<longrightarrow> Status w = Inl (Lib err))
   \<and> (\<forall>err. client_Get w = Inl err \<longrightarrow> (\<forall>sts. Status w \<noteq> Inr sts))"
  by (auto simp: Status_def split: sum.splits)

theorem status_errors_witness:
  "client_Get (sampleWorld [] noFiles plainJSON noIssuers (Inl ''NotFound'')) = Inl ''NotFound''
   \<and> IsNotFound (sampleWorld [] noFiles plainJSON noIssuers (Inl ''NotFound'')) ''NotFound''
   \<and> Status (sampleWorld [] noFiles plainJSON noIssuers (Inl ''NotFound'')) = Inl ErrNoInstallation
   \<and> client_Get (sampleWorld [] noFiles plainJSON noIssuers noCluster) = Inl ''connection refused''
   \<and> \<not> IsNotFound (sampleWorld [] noFiles plainJSON noIssuers noCluster) ''connection refused''
   \<and> Status (sampleWorld [] noFiles plainJSON noIssuers noCluster)
       = Inl (Lib ''connection refused'')"
  using status_errors [of "sampleWorld [] noFiles plainJSON noIssuers (Inl ''NotFound'')"]
    status_errors [of "sampleWorld [] noFiles plainJSON noIssuers noCluster"]
  by (simp add: sampleWorld_def noCluster_def)

section \<open>Nothing is applied unless construction succeeds\<close>

lemma generateIssuers_fails:
  assumes "t \<in> set ts" and "GenerateOperatorManifestsForIssuer w t = Inl e"
  shows "\<exists>e'. generateIssuers w mf ts = Inl e'"
  using assms
proof (induction ts arbitrary: mf)
  case Nil
  then show ?case by simp
next
  case (Cons a ts)
  show ?case
  proof (cases "GenerateOperatorManifestsForIssuer w a")
    case (Inl x)
    then show ?thesis by simp
  next
    case (Inr r)
    with Cons.prems have "t \<in> set ts" by auto
    from Cons.IH [OF this Cons.prems(2)] Inr show ?thesis
      by (cases r) auto
  qed
qed

lemma build_fails_on_pull_secret:
  assumes "Credentials options \<noteq> []" and "ImagePullSecret w (Credentials options) = Inl e"
  shows "\<exists>e'. buildManifests w options = Inl e'"
  using assms
  by (auto simp: buildManifests_def collectPullSecret_def Let_def split: sum.splits)

lemma build_fails_on_issuer:
  assumes "t \<in> set (VenafiIssuers options)" and "GenerateOperatorManifestsForIssuer w t = Inl e"
  shows "\<exists>e'. buildManifests w options = Inl e'"
proof -
  have "\<And>mf. \<exists>e'. generateVenafiIssuerManifests w mf options = Inl e'"
    unfolding generateVenafiIssuerManifests_def
    using generateIssuers_fails [OF assms] by blast
  then show ?thesis
    unfolding buildManifests_def Let_def
    by (auto split: sum.splits) (metis Inl_Inr_False)+
qed

text \<open>
  C4. \<open>ApplyInstallationYAML\<close> hands at most one stream to the applier, and only the stream
  that marshalling produced from manifests every construction step of which succeeded (in
  particular every issuer template was expanded). If the expansion of some issuer template
  fails, or the image pull secret cannot be built, or any other construction step fails, or
  marshalling fails, the function returns an error and the applier is not invoked.
\<close>

theorem apply_installation_atomic:
  "length (snd (ApplyInstallationYAML w applier options)) \<le> 1
   \<and> (\<forall>buf. buf \<in> set (snd (ApplyInstallationYAML w applier options)) \<longrightarrow>
         (\<exists>mf. buildManifests w options = Inr mf \<and> marshalManifests w mf = Inr buf)
         \<and> (\<forall>t \<in> set (VenafiIssuers options). \<exists>r. GenerateOperatorManifestsForIssuer w t = Inr r))
   \<and> ((\<exists>t \<in> set (VenafiIssuers options). \<exists>e. GenerateOperatorManifestsForIssuer w t = Inl e)
        \<or> (Credentials options \<noteq> [] \<and> (\<exists>e. ImagePullSecret w (Credentials options) = Inl e))
        \<or> (\<exists>e. buildManifests w options = Inl e)
        \<or> (\<exists>mf e. buildManifests w options = Inr mf \<and> marshalManifests w mf = Inl e)
       \<longrightarrow> fst (ApplyInstallationYAML w applier options) \<noteq> None
           \<and> snd (ApplyInstallationYAML w applier options) = [])"
proof -
  have A: "length (snd (ApplyInstallationYAML w applier options)) \<le> 1"
    by (simp add: ApplyInstallationYAML_def split: sum.splits)
  have C1: "fst (ApplyInstallationYAML w applier options) \<noteq> None
           \<and> snd (ApplyInstallationYAML w applier options) = []"
    if "buildManifests w options = Inl e" for e
    using that by (simp add: ApplyInstallationYAML_def renderInstallationYAML_def)
  have C2: "fst (ApplyInstallationYAML w applier options) \<noteq> None
           \<and> snd (ApplyInstallationYAML w applier options) = []"
    if "buildManifests w options = Inr mf" "marshalManifests w mf = Inl e" for mf e
    using that by (simp add: ApplyInstallationYAML_def renderInstallationYAML_def)
  have C3: "fst (ApplyInstallationYAML w applier options) \<noteq> None
           \<and> snd (ApplyInstallationYAML w applier options) = []"
    if "t \<in> set (VenafiIssuers options)" "GenerateOperatorManifestsForIssuer w t = Inl e" for t e
    using build_fails_on_issuer [OF that] C1 by blast
  have C4: "fst (ApplyInstallationYAML w applier options) \<noteq> None
           \<and> snd (ApplyInstallationYAML w applier options) = []"
    if "Credentials options \<noteq> []" "ImagePullSecret w (Credentials options) = Inl e" for e
    using build_fails_on_pull_secret [OF that] C1 by blast
  have B: "(\<exists>mf. buildManifests w options = Inr mf \<and> marshalManifests w mf = Inr buf)
         \<and> (\<forall>t \<in> set (VenafiIssuers options). \<exists>r. GenerateOperatorManifestsForIssuer w t = Inr r)"
    if b: "buf \<in> set (snd (ApplyInstallationYAML w applier options))" for buf
  proof
    show "\<exists>mf. buildManifests w options = Inr mf \<and> marshalManifests w mf = Inr buf"
      using b by (auto simp: ApplyInstallationYAML_def renderInstallationYAML_def split: sum.splits)
    show "\<forall>t \<in> set (VenafiIssuers options). \<exists>r. GenerateOperatorManifestsForIssuer w t = Inr r"
    proof
      fix t assume t: "t \<in> set (VenafiIssuers options)"
      show "\<exists>r. GenerateOperatorManifestsForIssuer w t = Inr r"
      proof (cases "GenerateOperatorManifestsForIssuer w t")
        case (Inl e)
        from C3 [OF t Inl] b show ?thesis by simp
      next
        case (Inr r)
        then show ?thesis by blast
      qed
    qed
  qed
  from A B C1 C2 C3 C4 show ?thesis by blast
qed

theorem apply_installation_atomic_witness:
  "''bad'' \<in> set (VenafiIssuers (issuerOptions [''ok'', ''bad''] []))
   \<and> GenerateOperatorManifestsForIssuer
        (sampleWorld [] noFiles plainJSON sampleGenerator noCluster) ''bad''
      = Inl ''invalid issuer template''
   \<and> fst (ApplyInstallationYAML (sampleWorld [] noFiles plainJSON sampleGenerator noCluster)
            applyOK (issuerOptions [''ok'', ''bad''] [])) \<noteq> None
   \<and> snd (ApplyInstallationYAML (sampleWorld [] noFiles plainJSON sampleGenerator noCluster)
            applyOK (issuerOptions [''ok'', ''bad''] [])) = []
   \<and> (\<exists>buf mf. snd (ApplyInstallationYAML (sampleWorld [] noFiles plainJSON sampleGenerator noCluster)
            applyOK (issuerOptions [''ok''] [])) = [buf]
        \<and> buildManifests (sampleWorld [] noFiles plainJSON sampleGenerator noCluster)
            (issuerOptions [''ok''] []) = Inr mf
        \<and> marshalManifests (sampleWorld [] noFiles plainJSON sampleGenerator noCluster) mf = Inr buf)"
proof -
  let ?w = "sampleWorld [] noFiles plainJSON sampleGenerator noCluster"
  have 1: "''bad'' \<in> set (VenafiIssuers (issuerOptions [''ok'', ''bad''] []))"
    by (simp add: issuerOptions_def)
  have 2: "GenerateOperatorManifestsForIssuer ?w ''bad'' = Inl ''invalid issuer template''"
    by (simp add: sampleWorld_def sampleGenerator_def)
  have 3: "fst (ApplyInstallationYAML ?w applyOK (issuerOptions [''ok'', ''bad''] [])) \<noteq> None
      \<and> snd (ApplyInstallationYAML ?w applyOK (issuerOptions [''ok'', ''bad''] [])) = []"
    using apply_installation_atomic [of ?w applyOK "issuerOptions [''ok'', ''bad''] []"] 1 2
    by blast
  obtain buf where 4: "snd (ApplyInstallationYAML ?w applyOK (issuerOptions [''ok''] [])) = [buf]"
    by (simp add: ApplyInstallationYAML_def renderInstallationYAML_def buildManifests_def
          marshalManifests_def sampleWorld_def issuerOptions_def sampleGenerator_def
          applyIstioCSRToInstallation_def applyCertManagerVersion_def collectPullSecret_def
          generateVenafiIssuerManifests_def baseManifests_def withSpec_def
          applyCSIDriversToInstallation_def applyVenafiOauthHelperToInstallation_def)
  then have "buf \<in> set (snd (ApplyInstallationYAML ?w applyOK (issuerOptions [''ok''] [])))"
    by simp
  with apply_installation_atomic [of ?w applyOK "issuerOptions [''ok''] []"]
  obtain mf where "buildManifests ?w (issuerOptions [''ok''] []) = Inr mf"
    and "marshalManifests ?w mf = Inr buf"
    by blast
  with 1 2 3 4 show ?thesis by blast
qed

section \<open>Order of the construction steps\<close>

lemma build_as_steps:
  "buildManifests w options = runSteps w options implementedOrder (baseManifests w options)"
  by (simp add: buildManifests_def implementedOrder_def Let_def split: sum.splits)

lemma fieldStep_run:
  assumes "hasCertManager mf" and "\<not> appendsSecrets s"
  shows "runStep w options s mf = Inr (fieldStep options s mf)"
  using assms
  by (cases s)
     (auto simp: hasCertManager_def applyIstioCSRToInstallation_def applyCertManagerVersion_def
        withSpec_def Let_def split: option.splits)

lemma fieldStep_hasCertManager:
  "hasCertManager (fieldStep options s mf) = hasCertManager mf"
  by (cases s)
     (auto simp: hasCertManager_def withSpec_def applyCSIDriversToInstallation_def
        applyVenafiOauthHelperToInstallation_def Let_def)

lemma fieldStep_secrets_update:
  "fieldStep options s (mf\<lparr>secrets := ss\<rparr>) = (fieldStep options s mf)\<lparr>secrets := ss\<rparr>"
  by (cases s)
     (auto simp: withSpec_def applyCSIDriversToInstallation_def
        applyVenafiOauthHelperToInstallation_def Let_def)

lemma fieldStep_secrets: "secrets (fieldStep options s mf) = secrets mf"
  by (cases s)
     (auto simp: withSpec_def applyCSIDriversToInstallation_def
        applyVenafiOauthHelperToInstallation_def Let_def)

lemma fieldStep_issuer_update:
  "fieldStep options s (withSpec (\<lambda>sp. sp\<lparr>spec_Issuers := spec_Issuers sp @ [i]\<rparr>) mf)
     = withSpec (\<lambda>sp. sp\<lparr>spec_Issuers := spec_Issuers sp @ [i]\<rparr>) (fieldStep options s mf)"
  by (cases s)
     (auto simp: withSpec_def applyCSIDriversToInstallation_def
        applyVenafiOauthHelperToInstallation_def Let_def)

lemma generateIssuers_fieldStep:
  "generateIssuers w (fieldStep options s mf) ts
     = map_sum id (fieldStep options s) (generateIssuers w mf ts)"
  by (induction ts arbitrary: mf)
     (auto simp: fieldStep_secrets fieldStep_secrets_update [symmetric]
        fieldStep_issuer_update [symmetric] split: sum.splits)

lemma runStep_fieldStep:
  assumes "appendsSecrets t"
  shows "runStep w options t (fieldStep options s mf)
           = map_sum id (fieldStep options s) (runStep w options t mf)"
  using assms
  by (cases t)
     (auto simp: collectPullSecret_def generateVenafiIssuerManifests_def
        generateIssuers_fieldStep fieldStep_secrets fieldStep_secrets_update
        split: sum.splits)

lemma generateIssuers_certManager:
  "generateIssuers w mf ts = Inr mf' \<Longrightarrow>
     spec_CertManager (inst_Spec (installation mf')) = spec_CertManager (inst_Spec (installation mf))"
  by (induction ts arbitrary: mf) (auto simp: withSpec_def split: sum.splits)

lemma runStep_hasCertManager:
  assumes "appendsSecrets t" and "runStep w options t mf = Inr mf'"
  shows "hasCertManager mf' = hasCertManager mf"
proof (cases t)
  case StepPullSecret
  with assms(2) show ?thesis
    by (auto simp: collectPullSecret_def hasCertManager_def split: sum.splits if_splits)
next
  case StepVenafiIssuers
  with assms(2) obtain m where "generateIssuers w mf (VenafiIssuers options) = Inr m" and "mf' = m"
    by (auto simp: generateVenafiIssuerManifests_def split: sum.splits)
  then show ?thesis
    using generateIssuers_certManager [of w mf "VenafiIssuers options" mf']
    by (simp add: hasCertManager_def)
qed (use assms(1) in auto)

lemma runSteps_fieldStep:
  assumes "\<forall>t \<in> set ts. appendsSecrets t"
  shows "runSteps w options ts (fieldStep options s mf)
           = map_sum id (fieldStep options s) (runSteps w options ts mf)"
  using assms
proof (induction ts arbitrary: mf)
  case Nil
  then show ?case by simp
next
  case (Cons t ts)
  then have t: "appendsSecrets t" and ts: "\<forall>t \<in> set ts. appendsSecrets t" by auto
  show ?case
    using Cons.IH [OF ts] runStep_fieldStep [OF t, of w options s mf]
    by (cases "runStep w options t mf") auto
qed

lemma runSteps_normal_form:
  assumes "hasCertManager mf"
  shows "runSteps w options ss mf =
     (case runSteps w options (filter appendsSecrets ss) mf of
        Inl e \<Rightarrow> Inl e
      | Inr mf' \<Rightarrow> Inr (fold (fieldStep options) (filter (\<lambda>s. \<not> appendsSecrets s) ss) mf'))"
  using assms
proof (induction ss arbitrary: mf)
  case Nil
  then show ?case by simp
next
  case (Cons s ss)
  show ?case
  proof (cases "appendsSecrets s")
    case True
    show ?thesis
    proof (cases "runStep w options s mf")
      case (Inl e)
      with True show ?thesis by simp
    next
      case (Inr m1)
      from runStep_hasCertManager [OF True Inr] Cons.prems have "hasCertManager m1" by simp
      from Cons.IH [OF this] True Inr show ?thesis by (simp cong: sum.case_cong)
    qed
  next
    case False
    have h: "hasCertManager (fieldStep options s mf)"
      using Cons.prems by (simp add: fieldStep_hasCertManager)
    have "runSteps w options (s # ss) mf = runSteps w options ss (fieldStep options s mf)"
      using fieldStep_run [OF Cons.prems False, of w options] by simp
    also have "\<dots> =
       (case runSteps w options (filter appendsSecrets ss) (fieldStep options s mf) of
          Inl e \<Rightarrow> Inl e
        | Inr mf' \<Rightarrow> Inr (fold (fieldStep options) (filter (\<lambda>s. \<not> appendsSecrets s) ss) mf'))"
      by (rule Cons.IH [OF h])
    also have "\<dots> =
       (case runSteps w options (filter appendsSecrets (s # ss)) mf of
          Inl e \<Rightarrow> Inl e
        | Inr mf' \<Rightarrow>
            Inr (fold (fieldStep options) (filter (\<lambda>s. \<not> appendsSecrets s) (s # ss)) mf'))"
      using False
      by (simp add: runSteps_fieldStep cong: sum.case_cong split: sum.splits)
    finally show ?thesis .
  qed
qed

lemma fieldStep_commute:
  "fieldStep options s (fieldStep options t mf) = fieldStep options t (fieldStep options s mf)"
  by (cases s; cases t)
     (auto simp: withSpec_def applyCSIDriversToInstallation_def
        applyVenafiOauthHelperToInstallation_def Let_def)

lemma base_hasCertManager: "hasCertManager (baseManifests w options)"
  by (simp add: hasCertManager_def baseManifests_def)

text \<open>
  C3 (as amended). The four steps that set a field (istio-csr, cert-manager version, CSI
  drivers, oauth-helper) commute with each other and with the two steps that append to the
  collected secrets: every order of the six steps that runs the pull-secret collection
  before the issuer-template expansion yields, from the base skeleton, the same result
  (manifests or error) as the implemented order.
\<close>

theorem steps_commute_keeping_secret_order:
  assumes "mset order = mset implementedOrder"
    and "filter appendsSecrets order = [StepPullSecret, StepVenafiIssuers]"
  shows "runSteps w options order (baseManifests w options) = buildManifests w options"
proof -
  have f: "filter appendsSecrets implementedOrder = [StepPullSecret, StepVenafiIssuers]"
    by (simp add: implementedOrder_def)
  have "mset (filter (\<lambda>s. \<not> appendsSecrets s) order)
          = mset (filter (\<lambda>s. \<not> appendsSecrets s) implementedOrder)"
    using assms(1) by (metis mset_filter)
  then have g: "fold (fieldStep options) (filter (\<lambda>s. \<not> appendsSecrets s) order)
           = fold (fieldStep options) (filter (\<lambda>s. \<not> appendsSecrets s) implementedOrder)"
  proof (rule fold_multiset_equiv [rotated])
    fix x y
    show "fieldStep options x \<circ> fieldStep options y = fieldStep options y \<circ> fieldStep options x"
      by (rule ext) (simp only: o_apply, rule fieldStep_commute)
  qed
  have A: "runSteps w options order (baseManifests w options) =
     (case runSteps w options [StepPullSecret, StepVenafiIssuers] (baseManifests w options) of
        Inl e \<Rightarrow> Inl e
      | Inr mf' \<Rightarrow>
          Inr (fold (fieldStep options) (filter (\<lambda>s. \<not> appendsSecrets s) order) mf'))"
    using runSteps_normal_form [OF base_hasCertManager, of w options order]
    by (simp only: assms(2))
  have B: "runSteps w options implementedOrder (baseManifests w options) =
     (case runSteps w options [StepPullSecret, StepVenafiIssuers] (baseManifests w options) of
        Inl e \<Rightarrow> Inl e
      | Inr mf' \<Rightarrow>
          Inr (fold (fieldStep options) (filter (\<lambda>s. \<not> appendsSecrets s) implementedOrder) mf'))"
    using runSteps_normal_form [OF base_hasCertManager, of w options implementedOrder]
    by (simp only: f)
  show ?thesis
    unfolding build_as_steps A B g ..
qed


theorem steps_commute_keeping_secret_order_witness:
  "mset permutedOrder = mset implementedOrder
   \<and> filter appendsSecrets permutedOrder = [StepPullSecret, StepVenafiIssuers]
   \<and> runSteps keyWorld (issuerOptions [''ok''] ''key.json'') permutedOrder
        (baseManifests keyWorld (issuerOptions [''ok''] ''key.json''))
       = buildManifests keyWorld (issuerOptions [''ok''] ''key.json'')"
proof -
  have 1: "mset permutedOrder = mset implementedOrder"
    by (simp add: permutedOrder_def implementedOrder_def)
  have 2: "filter appendsSecrets permutedOrder = [StepPullSecret, StepVenafiIssuers]"
    by (simp add: permutedOrder_def)
  from steps_commute_keeping_secret_order [OF 1 2] 1 2 show ?thesis by blast
qed


lemmas step_eval =
  applyIstioCSRToInstallation_def applyCertManagerVersion_def collectPullSecret_def
  generateVenafiIssuerManifests_def baseManifests_def withSpec_def
  applyCSIDriversToInstallation_def applyVenafiOauthHelperToInstallation_def
  ImagePullSecret_def sampleWorld_def issuerOptions_def sampleGenerator_def oneFile_def

lemma swapped_names:
  "\<exists>mf. runSteps keyWorld (issuerOptions [''ok''] ''key.json'') swappedOrder
            (baseManifests keyWorld (issuerOptions [''ok''] ''key.json'')) = Inr mf
      \<and> map secret_Name (secrets mf) = [''ok'', ''jse-gcr-creds'']"
  by (simp add: swappedOrder_def keyWorld_def step_eval sampleIssuerSecret_def plainJSON_def)

lemma implemented_names:
  "\<exists>mf. buildManifests keyWorld (issuerOptions [''ok''] ''key.json'') = Inr mf
      \<and> map secret_Name (secrets mf) = [''jse-gcr-creds'', ''ok'']"
  by (simp add: buildManifests_def keyWorld_def step_eval sampleIssuerSecret_def plainJSON_def)

text \<open>
  C3 as stated fails: the pull-secret collection and the issuer-template expansion both
  append to the collected secrets, so running them in the other order gives the secrets in
  the other order.
\<close>

theorem steps_commute_counterexample:
  "mset swappedOrder = mset implementedOrder
   \<and> (\<exists>mf. runSteps keyWorld (issuerOptions [''ok''] ''key.json'') swappedOrder
              (baseManifests keyWorld (issuerOptions [''ok''] ''key.json'')) = Inr mf
         \<and> map secret_Name (secrets mf) = [''ok'', ''jse-gcr-creds''])
   \<and> (\<exists>mf. buildManifests keyWorld (issuerOptions [''ok''] ''key.json'') = Inr mf
         \<and> map secret_Name (secrets mf) = [''jse-gcr-creds'', ''ok''])
   \<and> runSteps keyWorld (issuerOptions [''ok''] ''key.json'') swappedOrder
        (baseManifests keyWorld (issuerOptions [''ok''] ''key.json''))
       \<noteq> runSteps keyWorld (issuerOptions [''ok''] ''key.json'') implementedOrder
           (baseManifests keyWorld (issuerOptions [''ok''] ''key.json''))"
proof -
  have 1: "mset swappedOrder = mset implementedOrder"
    by (simp add: swappedOrder_def implementedOrder_def)
  from swapped_names implemented_names
  have "runSteps keyWorld (issuerOptions [''ok''] ''key.json'') swappedOrder
          (baseManifests keyWorld (issuerOptions [''ok''] ''key.json''))
        \<noteq> buildManifests keyWorld (issuerOptions [''ok''] ''key.json'')"
    by auto
  with 1 swapped_names implemented_names show ?thesis
    by (simp only: build_as_steps) blast
qed

section \<open>The image pull secret\<close>






section \<open>The stand-in template engine and the sample installers\<close>

lemma scanTemplate_text:
  assumes "CHR ''{'' \<notin> set s"
  shows "scanTemplate None tx nodes (s @ rest) = scanTemplate None (rev s @ tx) nodes rest"
  using assms
proof (induction s arbitrary: tx)
  case Nil
  then show ?case by simp
next
  case (Cons c cs)
  then have c: "c \<noteq> CHR ''{''" and cs: "CHR ''{'' \<notin> set cs" by auto
  have "scanTemplate None tx nodes (c # (cs @ rest)) = scanTemplate None (c # tx) nodes (cs @ rest)"
    using c by (cases "cs @ rest") simp_all
  with Cons.IH [OF cs, of "c # tx"] show ?case by simp
qed

lemma scanTemplate_text_only:
  assumes "CHR ''{'' \<notin> set s"
  shows "scanTemplate None tx nodes s = Inr (rev (flushText (rev s @ tx) nodes))"
  using scanTemplate_text [OF assms, of tx nodes "[]"] by simp

lemma plainParse_field_then_text:
  assumes "CHR ''{'' \<notin> set s"
  shows "plainParse (''image: {{ .ImageRegistry }}'' @ s) =
           Inr ([TextNode ''image: '', FieldNode ''ImageRegistry'']
                @ (if s = [] then [] else [TextNode s]))"
proof -
  have "plainParse (''image: {{ .ImageRegistry }}'' @ s)
          = scanTemplate None [] [FieldNode ''ImageRegistry'', TextNode ''image: ''] s"
    by (simp add: plainParse_def flushText_def fieldOf_def isIdentChar_def)
  also have "\<dots> = Inr (rev (flushText (rev s) [FieldNode ''ImageRegistry'', TextNode ''image: '']))"
    using scanTemplate_text_only [OF assms, of "[]"] by simp
  finally show ?thesis by (simp add: flushText_def)
qed

lemma pull_secret_yaml_no_brace:
  assumes "ImagePullSecret w keyFileLocation = Inr secret"
  shows "CHR ''{'' \<notin> set (plainYAMLSecret secret) \<and> CHR ''}'' \<notin> set (plainYAMLSecret secret)"
  using assms
  by (auto simp: ImagePullSecret_def plainYAMLSecret_def nl_def EncodeToString_no_brace
        split: keyfile.splits sum.splits simp del: EncodeToString.simps)


lemma sample_rawVersions: "rawVersions sampleInstallers = [''v1.10.0'', ''v1.2.0'']"
  by (simp add: sampleInstallers_def TrimSuffix_def Base_def)

lemma sample_parse:
  "plainNewVersion ''v1.10.0'' = Inr (1, 10, 0)" "plainNewVersion ''v1.2.0'' = Inr (1, 2, 0)"
  by (simp_all add: plainNewVersion_def parseSegment_def digitValue_def)

lemma sample_show:
  "showNat 0 = ''0''" "showNat (Suc 0) = ''1''" "showNat 2 = ''2''" "showNat 10 = ''10''"
  by code_simp+

lemma sample_Versions: "Versions (installerWorld files json) = Inr [''v1.2.0'', ''v1.10.0'']"
  by (simp add: Versions_def installerWorld_def sampleWorld_def sample_rawVersions sample_parse
        insertionSort_def sample_show)


lemma sample_Join:
  "Join [''installers'', ''v1.10.0.yaml''] = ''installers/v1.10.0.yaml''"
  "Join [''installers'', ''v1.2.0.yaml''] = ''installers/v1.2.0.yaml''"
  "Join [''installers'', ''./v1.2.0.yaml''] = ''installers/v1.2.0.yaml''"
  by (simp_all add: Join_def Clean_def)

lemma sample_ValidPath:
  "ValidPath ''installers/v1.10.0.yaml''" "ValidPath ''installers/v1.2.0.yaml''"
  by (simp_all add: ValidPath_def)

lemma sample_Open:
  "Open sampleInstallers ''installers/v1.10.0.yaml''
     = Inr (File (''image: {{ .ImageRegistry }}/js-operator:v1.10.0'' @ nl))"
  "Open sampleInstallers ''installers/v1.2.0.yaml''
     = Inr (File (''image: {{ .ImageRegistry }}/js-operator:v1.2.0'' @ nl))"
  by (simp_all add: Open_def sample_ValidPath sampleInstallers_def)


section \<open>Version selection\<close>

lemma splitSlash_no_slash: "CHR ''/'' \<notin> set s \<Longrightarrow> splitSlash s = [s]"
  by (induction s) auto

lemma splitSlash_append:
  "CHR ''/'' \<notin> set a \<Longrightarrow> splitSlash (a @ CHR ''/'' # b) = a # splitSlash b"
  by (induction a) auto

lemma Join_plain_name:
  assumes "CHR ''/'' \<notin> set name" and "name \<noteq> []" and "name \<noteq> ''.''" and "name \<noteq> ''..''"
  shows "Join [''installers'', name] = ''installers/'' @ name"
proof -
  have "splitSlash (''installers'' @ CHR ''/'' # name) = ''installers'' # splitSlash name"
    by (rule splitSlash_append) simp
  then have "splitSlash (''installers/'' @ name) = [''installers'', name]"
    using splitSlash_no_slash [OF assms(1)] by simp
  then show ?thesis
    using assms(2-4) by (simp add: Join_def Clean_def)
qed

lemma yaml_name:
  "v @ ''.yaml'' \<noteq> []" "v @ ''.yaml'' \<noteq> ''.''" "v @ ''.yaml'' \<noteq> ''..''"
proof -
  have "length (v @ ''.yaml'') \<ge> 5" by simp
  then show "v @ ''.yaml'' \<noteq> []" "v @ ''.yaml'' \<noteq> ''.''" "v @ ''.yaml'' \<noteq> ''..''"
    by (auto simp del: length_append)
qed

lemma lookupName_None: "n \<notin> fst ` set entries \<Longrightarrow> lookupName entries n = None"
  by (induction entries) auto

lemma Open_unknown_name:
  assumes "CHR ''/'' \<notin> set name" and "name \<notin> fst ` set entries"
  shows "Open entries (''installers/'' @ name) = Inl (FsNotExist (''installers/'' @ name))"
proof -
  define p where "p = ''installers/'' @ name"
  have "splitSlash (''installers'' @ CHR ''/'' # name) = ''installers'' # splitSlash name"
    by (rule splitSlash_append) simp
  then have sp: "splitSlash p = [''installers'', name]"
    using splitSlash_no_slash [OF assms(1)] by (simp add: p_def)
  have ne: "p \<noteq> ''.''" by (simp add: p_def)
  have "Open entries p = Inl (FsNotExist p)"
    unfolding Open_def by (simp add: sp ne lookupName_None [OF assms(2)])
  then show ?thesis unfolding p_def .
qed

lemma manifestVersion_unknown:
  fixes w :: "('x, 'v, 't, 'i, 'f) world"
  assumes "CHR ''/'' \<notin> set version" and "version @ ''.yaml'' \<notin> fst ` set (installers w)"
  shows "manifestVersion w version = Inl ErrNoManifest"
proof -
  have s: "CHR ''/'' \<notin> set (version @ ''.yaml'')" using assms(1) by simp
  have j: "Join [''installers'', version @ ''.yaml''] = ''installers/'' @ version @ ''.yaml''"
    by (rule Join_plain_name [OF s yaml_name])
  have "Open (installers w) (''installers/'' @ version @ ''.yaml'')
          = (Inl (FsNotExist (''installers/'' @ version @ ''.yaml'')) :: 'x error + fsnode)"
    by (rule Open_unknown_name [OF s assms(2)])
  then show ?thesis
    unfolding manifestVersion_def Let_def j by (simp only: sum.case isNotExist.simps if_True)
qed


lemma Versions_entries_nonempty:
  assumes "Versions w = Inr vs" and "v \<in> set vs"
  shows "v \<noteq> []"
  using assms by (auto simp: Versions_def split: sum.splits)

lemma Open_error:
  "Open entries name = Inl err \<Longrightarrow> err = FsNotExist name"
  by (auto simp: Open_def split: if_splits option.splits)

lemma latestManifest_eq:
  assumes "Versions w = Inr vs" and "vs \<noteq> []"
  shows "latestManifest w = Open (installers w) (Join [''installers'', last vs @ ''.yaml''])"
  using assms by (simp add: latestManifest_def Let_def)

lemma manifestVersion_eq:
  fixes w :: "('x, 'v, 't, 'i, 'f) world"
  shows "manifestVersion w version =
     (case (Open (installers w) (Join [''installers'', version @ ''.yaml'']) :: 'x error + fsnode) of
        Inl err \<Rightarrow> Inl ErrNoManifest
      | Inr file \<Rightarrow> Inr file)"
  by (auto simp: manifestVersion_def Let_def split: sum.splits dest: Open_error)

lemma render_latest_vs_explicit:
  fixes w :: "('x, 'v, 't, 'i, 'f) world"
  assumes "Versions w = Inr vs" and "vs \<noteq> []"
  shows "renderOperatorYAML w (options\<lparr>Version := last vs\<rparr>) =
     (case latestManifest w of
        Inl err \<Rightarrow> Inl ErrNoManifest
      | Inr file \<Rightarrow> renderOperatorYAML w (options\<lparr>Version := []\<rparr>))"
proof -
  have ne: "last vs \<noteq> []"
    using Versions_entries_nonempty [OF assms(1)] assms(2) last_in_set by blast
  show ?thesis
    using ne
    by (simp add: renderOperatorYAML_def manifestVersion_eq latestManifest_eq [OF assms]
          split: sum.splits)
qed

lemma render_empty_fails:
  "latestManifest w = Inl err \<Longrightarrow> renderOperatorYAML w (options\<lparr>Version := []\<rparr>) = Inl err"
  by (simp add: renderOperatorYAML_def)

text \<open>
  C2 (as amended). When \<open>Versions\<close> returns a non-empty list, \<open>ApplyOperatorYAML\<close> with an
  empty \<open>Version\<close> hands the applier the same streams as with \<open>Version\<close> equal to the last
  (highest) string of that list, and where the manifest of that name is embedded the two
  calls have the same result altogether. For a non-empty \<open>Version\<close> that contains no path
  separator and for which no embedded entry is named \<open>Version.yaml\<close>, the call fails with
  \<open>ErrNoManifest\<close> and nothing is applied.
\<close>

theorem operator_version_selection:
  "(Versions w = Inr vs \<and> vs \<noteq> [] \<longrightarrow>
      snd (ApplyOperatorYAML w applier (options\<lparr>Version := []\<rparr>))
        = snd (ApplyOperatorYAML w applier (options\<lparr>Version := last vs\<rparr>))
      \<and> ((\<exists>file. latestManifest w = Inr file) \<longrightarrow>
            ApplyOperatorYAML w applier (options\<lparr>Version := []\<rparr>)
              = ApplyOperatorYAML w applier (options\<lparr>Version := last vs\<rparr>)))
   \<and> (Version options \<noteq> [] \<and> CHR ''/'' \<notin> set (Version options)
        \<and> Version options @ ''.yaml'' \<notin> fst ` set (installers w) \<longrightarrow>
      ApplyOperatorYAML w applier options = (Some ErrNoManifest, []))"
proof (intro conjI impI)
  assume h: "Versions w = Inr vs \<and> vs \<noteq> []"
  then have v: "Versions w = Inr vs" and ne: "vs \<noteq> []" by simp_all
  note r = render_latest_vs_explicit [OF v ne, of options]
  show "snd (ApplyOperatorYAML w applier (options\<lparr>Version := []\<rparr>))
        = snd (ApplyOperatorYAML w applier (options\<lparr>Version := last vs\<rparr>))"
  proof (cases "latestManifest w")
    case (Inl err)
    with r render_empty_fails [OF Inl, of options] show ?thesis
      by (simp add: ApplyOperatorYAML_def)
  next
    case (Inr f)
    with r show ?thesis by (simp add: ApplyOperatorYAML_def)
  qed
  assume "\<exists>file. latestManifest w = Inr file"
  with r show "ApplyOperatorYAML w applier (options\<lparr>Version := []\<rparr>)
              = ApplyOperatorYAML w applier (options\<lparr>Version := last vs\<rparr>)"
    by (auto simp: ApplyOperatorYAML_def)
next
  assume h: "Version options \<noteq> [] \<and> CHR ''/'' \<notin> set (Version options)
        \<and> Version options @ ''.yaml'' \<notin> fst ` set (installers w)"
  then have "manifestVersion w (Version options) = Inl ErrNoManifest"
    using manifestVersion_unknown by blast
  with h show "ApplyOperatorYAML w applier options = (Some ErrNoManifest, [])"
    by (simp add: ApplyOperatorYAML_def renderOperatorYAML_def)
qed


lemma sample_apply:
  fixes files json
  defines "W \<equiv> installerWorld files json"
  assumes m: "(if Version options = [] then latestManifest W
               else manifestVersion W (Version options))
              = Inr (File (''image: {{ .ImageRegistry }}'' @ rest))"
    and r: "CHR ''{'' \<notin> set rest"
    and k: "files (CredentialsLocation options) = Contents keyData"
    and j: "json (dockerConfig keyData) = Inr configJSON"
  shows "\<exists>output. ApplyOperatorYAML W applyOK options = (None, [output])"
proof -
  have k': "os_ReadFile W (CredentialsLocation options) = Contents keyData"
    and j': "json_Marshal W (dockerConfig keyData) = Inr configJSON"
    using k j by (simp_all add: W_def installerWorld_def sampleWorld_def)
  obtain secret where s: "ImagePullSecret W (CredentialsLocation options) = Inr secret"
    using k' j' by (simp add: ImagePullSecret_def)
  have y: "yaml_Marshal_Secret W secret = Inr (plainYAMLSecret secret)"
    by (simp add: W_def installerWorld_def sampleWorld_def)
  have nb: "CHR ''{'' \<notin> set (rest @ ''---'' @ [CHR 0x0A] @ plainYAMLSecret secret)"
    using r pull_secret_yaml_no_brace [OF s] by simp
  have "plainParse (''image: {{ .ImageRegistry }}'' @ (rest @ ''---'' @ [CHR 0x0A] @ plainYAMLSecret secret))
          = Inr ([TextNode ''image: '', FieldNode ''ImageRegistry'']
                 @ (if rest @ ''---'' @ [CHR 0x0A] @ plainYAMLSecret secret = [] then []
                    else [TextNode (rest @ ''---'' @ [CHR 0x0A] @ plainYAMLSecret secret)]))"
    by (rule plainParse_field_then_text [OF nb])
  then obtain tpl where
    p: "template_Parse W ((''image: {{ .ImageRegistry }}'' @ rest) @ ''---'' @ [CHR 0x0A]
          @ plainYAMLSecret secret) = Inr tpl"
    by (simp add: W_def installerWorld_def sampleWorld_def)
  obtain out where e: "template_Execute W tpl (ImageRegistry options) = Inr out"
    by (simp add: W_def installerWorld_def sampleWorld_def plainExecute_def)
  have "renderOperatorYAML W options = Inr out"
    unfolding renderOperatorYAML_def using m s y p e by (simp del: append_assoc)
  then show ?thesis
    by (simp add: ApplyOperatorYAML_def applyOK_def)
qed


lemma sample_latestManifest:
  "latestManifest (installerWorld files json)
     = Inr (File (''image: {{ .ImageRegistry }}'' @ ''/js-operator:v1.10.0'' @ nl))"
  using latestManifest_eq [OF sample_Versions, of files json]
  by (simp add: sample_Join installerWorld_def sampleWorld_def sample_Open)

lemma sample_manifestVersion:
  "manifestVersion (installerWorld files json) ''v1.10.0''
     = Inr (File (''image: {{ .ImageRegistry }}'' @ ''/js-operator:v1.10.0'' @ nl))"
  "manifestVersion (installerWorld files json) ''./v1.2.0''
     = Inr (File (''image: {{ .ImageRegistry }}'' @ ''/js-operator:v1.2.0'' @ nl))"
  by (simp_all add: manifestVersion_eq sample_Join installerWorld_def sampleWorld_def sample_Open)

theorem operator_version_selection_witness:
  "Versions (installerWorld (oneFile ''key.json'' ''ABC123'') plainJSON) = Inr [''v1.2.0'', ''v1.10.0'']
   \<and> (\<exists>f. latestManifest (installerWorld (oneFile ''key.json'' ''ABC123'') plainJSON) = Inr f)
   \<and> ApplyOperatorYAML (installerWorld (oneFile ''key.json'' ''ABC123'') plainJSON) applyOK
         (operatorOptions [])
       = ApplyOperatorYAML (installerWorld (oneFile ''key.json'' ''ABC123'') plainJSON) applyOK
           (operatorOptions ''v1.10.0'')
   \<and> (\<exists>out. ApplyOperatorYAML (installerWorld (oneFile ''key.json'' ''ABC123'') plainJSON) applyOK
           (operatorOptions []) = (None, [out]))
   \<and> CHR ''/'' \<notin> set ''v1.3.0''
   \<and> ''v1.3.0'' @ ''.yaml''
        \<notin> fst ` set (installers (installerWorld (oneFile ''key.json'' ''ABC123'') plainJSON))
   \<and> ApplyOperatorYAML (installerWorld (oneFile ''key.json'' ''ABC123'') plainJSON) applyOK
         (operatorOptions ''v1.3.0'') = (Some ErrNoManifest, [])"
proof -
  let ?W = "installerWorld (oneFile ''key.json'' ''ABC123'') plainJSON"
  have v: "Versions ?W = Inr [''v1.2.0'', ''v1.10.0'']" by (rule sample_Versions)
  have l: "\<exists>f. latestManifest ?W = Inr f" by (simp add: sample_latestManifest)
  have o1: "(operatorOptions ''v1.3.0'')\<lparr>Version := []\<rparr> = operatorOptions []"
    and o2: "(operatorOptions ''v1.3.0'')\<lparr>Version := last [''v1.2.0'', ''v1.10.0'']\<rparr>
               = operatorOptions ''v1.10.0''"
    and o3: "Version (operatorOptions ''v1.3.0'') = ''v1.3.0''"
    by (simp_all add: operatorOptions_def)
  have s: "CHR ''/'' \<notin> set ''v1.3.0''" by simp
  have n: "''v1.3.0'' @ ''.yaml'' \<notin> fst ` set (installers ?W)"
    by (simp add: installerWorld_def sampleWorld_def sampleInstallers_def)
  have a: "\<exists>out. ApplyOperatorYAML ?W applyOK (operatorOptions []) = (None, [out])"
    by (rule sample_apply [where rest = "''/js-operator:v1.10.0'' @ nl" and keyData = "''ABC123''"])
       (simp_all add: operatorOptions_def sample_latestManifest nl_def oneFile_def plainJSON_def)
  from operator_version_selection [of ?W "[''v1.2.0'', ''v1.10.0'']" applyOK "operatorOptions ''v1.3.0''"]
  have "ApplyOperatorYAML ?W applyOK (operatorOptions [])
          = ApplyOperatorYAML ?W applyOK (operatorOptions ''v1.10.0'')"
    and "ApplyOperatorYAML ?W applyOK (operatorOptions ''v1.3.0'') = (Some ErrNoManifest, [])"
    using v l s n unfolding o1 o2 o3 by blast+
  with v l a s n show ?thesis by blast
qed


text \<open>
  C2 as stated fails for a \<open>Version\<close> with path elements: \<open>filepath.Join\<close> cleans the
  path, so \<open>./v1.2.0\<close>, which is neither a string of \<open>Versions\<close> nor the name of an
  embedded entry, opens \<open>installers/v1.2.0.yaml\<close> and is applied.
\<close>

theorem unknown_version_counterexample:
  "Versions (installerWorld (oneFile ''key.json'' ''ABC123'') plainJSON) = Inr [''v1.2.0'', ''v1.10.0'']
   \<and> map fst (installers (installerWorld (oneFile ''key.json'' ''ABC123'') plainJSON))
       = [''v1.10.0.yaml'', ''v1.2.0.yaml'']
   \<and> (\<exists>out. ApplyOperatorYAML (installerWorld (oneFile ''key.json'' ''ABC123'') plainJSON) applyOK
               (operatorOptions ''./v1.2.0'') = (None, [out]))"
proof -
  have 1: "map fst (installers (installerWorld (oneFile ''key.json'' ''ABC123'') plainJSON))
       = [''v1.10.0.yaml'', ''v1.2.0.yaml'']"
    by (simp add: installerWorld_def sampleWorld_def sampleInstallers_def)
  have 2: "\<exists>out. ApplyOperatorYAML (installerWorld (oneFile ''key.json'' ''ABC123'') plainJSON) applyOK
               (operatorOptions ''./v1.2.0'') = (None, [out])"
    by (rule sample_apply [where rest = "''/js-operator:v1.2.0'' @ nl" and keyData = "''ABC123''"])
       (simp_all add: operatorOptions_def sample_manifestVersion nl_def oneFile_def plainJSON_def)
  from sample_Versions 1 2 show ?thesis by blast
qed

section \<open>The stream parsed as a template\<close>

text \<open>
  C10 (as amended). Once the manifest is found and read and the pull secret is built and
  marshalled, \<open>ApplyOperatorYAML\<close> parses the whole concatenation (installer template,
  document marker, pull-secret document) as one template before the registry is
  substituted; if the parse or the execution fails, it returns that error and the applier
  is not invoked. The credential-file content reaches the stream only inside the data value
  of the secret, which is rendered in base64: the pull-secret document so rendered contains
  neither \<open>{\<close> nor \<open>}\<close>, whatever the file contains.
\<close>

theorem whole_stream_is_one_template:
  fixes w :: "('x, 'v, 't, 'i, 'f) world"
  assumes "(if Version options = [] then latestManifest w
            else manifestVersion w (Version options)) = Inr manifest"
    and "readAll manifest = (Inr buf :: 'x error + string)"
    and "ImagePullSecret w (CredentialsLocation options) = Inr secret"
    and "yaml_Marshal_Secret w secret = Inr secretData"
  shows "ApplyOperatorYAML w applier options =
           (case template_Parse w (buf @ ''---'' @ [CHR 0x0A] @ secretData) of
              Inl err \<Rightarrow> (Some (Lib err), [])
            | Inr tpl \<Rightarrow>
                (case template_Execute w tpl (ImageRegistry options) of
                   Inl err \<Rightarrow> (Some (Lib err), [])
                 | Inr output \<Rightarrow> (map_option Lib (applier output), [output])))
       \<and> CHR ''{'' \<notin> set (plainYAMLSecret secret)
       \<and> CHR ''}'' \<notin> set (plainYAMLSecret secret)"
proof -
  have "renderOperatorYAML w options =
          (case template_Parse w (buf @ ''---'' @ [CHR 0x0A] @ secretData) of
             Inl err \<Rightarrow> Inl (Lib err)
           | Inr tpl \<Rightarrow>
               (case template_Execute w tpl (ImageRegistry options) of
                  Inl err \<Rightarrow> Inl (Lib err)
                | Inr output \<Rightarrow> Inr output))"
    unfolding renderOperatorYAML_def using assms by (simp split: sum.splits)
  then have "ApplyOperatorYAML w applier options =
           (case template_Parse w (buf @ ''---'' @ [CHR 0x0A] @ secretData) of
              Inl err \<Rightarrow> (Some (Lib err), [])
            | Inr tpl \<Rightarrow>
                (case template_Execute w tpl (ImageRegistry options) of
                   Inl err \<Rightarrow> (Some (Lib err), [])
                 | Inr output \<Rightarrow> (map_option Lib (applier output), [output])))"
    by (simp add: ApplyOperatorYAML_def split: sum.splits)
  with pull_secret_yaml_no_brace [OF assms(3)] show ?thesis by blast
qed

theorem whole_stream_is_one_template_witness:
  "\<exists>manifest buf secret secretData.
     manifestVersion (installerWorld (oneFile ''key.json'' ''{{'') plainJSON) ''v1.10.0'' = Inr manifest
     \<and> readAll manifest = (Inr buf :: string error + string)
     \<and> ImagePullSecret (installerWorld (oneFile ''key.json'' ''{{'') plainJSON) ''key.json'' = Inr secret
     \<and> yaml_Marshal_Secret (installerWorld (oneFile ''key.json'' ''{{'') plainJSON) secret
          = Inr secretData
     \<and> secretData = plainYAMLSecret secret
     \<and> CHR ''{'' \<notin> set secretData \<and> CHR ''}'' \<notin> set secretData"
proof -
  let ?W = "installerWorld (oneFile ''key.json'' ''{{'') plainJSON"
  let ?o = "operatorOptions ''v1.10.0''"
  have 1: "(if Version ?o = [] then latestManifest ?W else manifestVersion ?W (Version ?o))
             = Inr (File (''image: {{ .ImageRegistry }}'' @ ''/js-operator:v1.10.0'' @ nl))"
    by (simp add: operatorOptions_def sample_manifestVersion)
  have 2: "readAll (File (''image: {{ .ImageRegistry }}'' @ ''/js-operator:v1.10.0'' @ nl))
             = (Inr (''image: {{ .ImageRegistry }}'' @ ''/js-operator:v1.10.0'' @ nl)
                  :: string error + string)"
    by simp
  obtain secret where 3: "ImagePullSecret ?W (CredentialsLocation ?o) = Inr secret"
    by (simp add: ImagePullSecret_def installerWorld_def sampleWorld_def oneFile_def
          operatorOptions_def plainJSON_def)
  have 4: "yaml_Marshal_Secret ?W secret = Inr (plainYAMLSecret secret)"
    by (simp add: installerWorld_def sampleWorld_def)
  from whole_stream_is_one_template [OF 1 2 3 4, of applyOK]
  have "CHR ''{'' \<notin> set (plainYAMLSecret secret)" "CHR ''}'' \<notin> set (plainYAMLSecret secret)"
    by blast+
  with 1 2 3 4 show ?thesis
    by (simp add: operatorOptions_def)
qed


text \<open>
  C10 as stated fails: with a well-formed installer template, no credential-file content
  (and no JSON encoding of it) makes \<open>ApplyOperatorYAML\<close> fail; in particular the content
  \<open>{{\<close> is applied like any other.
\<close>

theorem credentials_cannot_break_template_counterexample:
  "\<forall>keyData encode. \<exists>out.
     ApplyOperatorYAML (installerWorld (\<lambda>path. Contents keyData) (\<lambda>config. Inr (encode config)))
       applyOK (operatorOptions ''v1.10.0'') = (None, [out])"
proof (intro allI)
  fix keyData :: string and encode :: "ConfigJSON \<Rightarrow> string"
  show "\<exists>out.
     ApplyOperatorYAML (installerWorld (\<lambda>path. Contents keyData) (\<lambda>config. Inr (encode config)))
       applyOK (operatorOptions ''v1.10.0'') = (None, [out])"
    by (rule sample_apply [where rest = "''/js-operator:v1.10.0'' @ nl" and keyData = keyData])
       (simp_all add: operatorOptions_def sample_manifestVersion nl_def)
qed

section \<open>The version catalog\<close>

lemma rawVersions_eq:
  "rawVersions entries =
     map (\<lambda>e. TrimSuffix (Base (fst e)) ''.yaml'') (filter (\<lambda>e. \<exists>d. snd e = File d) entries)"
  by (induction entries rule: rawVersions.induct) simp_all

lemma parseVersions_all:
  assumes "\<forall>raw \<in> set raws. \<exists>v. parse raw = Inr v"
  shows "\<exists>vs. parseVersions parse raws = Inr vs \<and> map Inr vs = map parse raws"
  using assms
proof (induction raws)
  case Nil
  then show ?case by simp
next
  case (Cons raw raws)
  then obtain v vs where "parse raw = Inr v" and "parseVersions parse raws = Inr vs"
    and "map Inr vs = map parse raws"
    by auto
  then show ?case by simp
qed

lemma parseVersions_some_fails:
  assumes "\<exists>raw \<in> set raws. \<exists>err. parse raw = Inl err"
  shows "\<exists>raw \<in> set raws. \<exists>err. parse raw = Inl err \<and> parseVersions parse raws = Inl (Lib err)"
  using assms
proof (induction raws)
  case Nil
  then show ?case by simp
next
  case (Cons raw raws)
  show ?case
  proof (cases "parse raw")
    case (Inl err)
    then show ?thesis by auto
  next
    case (Inr v)
    with Cons.prems have "\<exists>raw \<in> set raws. \<exists>err. parse raw = Inl err" by auto
    from Cons.IH [OF this] Inr show ?thesis by auto
  qed
qed

text \<open>
  C5. Assume the library's \<open>LessThan\<close> is a strict weak order. The names that \<open>Versions\<close>
  parses are the names of the embedded files (not directories) with the extension
  stripped. If every one of them parses as a semantic version, \<open>Versions\<close> returns exactly
  the parsed versions (as a multiset), in ascending order of \<open>LessThan\<close>, each rendered by
  the library and prefixed with \<open>v\<close>. If some name does not parse, \<open>Versions\<close> fails with
  the parse error of such a name.
\<close>

theorem versions_sorted_by_semver:
  assumes "strictWeakOrder (semver_LessThan w)"
  shows "rawVersions (installers w) =
           map (\<lambda>e. TrimSuffix (Base (fst e)) ''.yaml'')
             (filter (\<lambda>e. \<exists>d. snd e = File d) (installers w))
     \<and> ((\<forall>raw \<in> set (rawVersions (installers w)). \<exists>v. semver_NewVersion w raw = Inr v) \<longrightarrow>
          (\<exists>parsed. Versions w = Inr (map (\<lambda>v. ''v'' @ semver_String w v) parsed)
             \<and> mset (map Inr parsed) = mset (map (semver_NewVersion w) (rawVersions (installers w)))
             \<and> sorted_wrt (\<lambda>a b. \<not> semver_LessThan w b a) parsed))
     \<and> ((\<exists>raw \<in> set (rawVersions (installers w)). \<exists>err. semver_NewVersion w raw = Inl err) \<longrightarrow>
          (\<exists>raw \<in> set (rawVersions (installers w)). \<exists>err.
             semver_NewVersion w raw = Inl err \<and> Versions w = Inl (Lib err)))"
proof (intro conjI impI)
  show "rawVersions (installers w) =
           map (\<lambda>e. TrimSuffix (Base (fst e)) ''.yaml'')
             (filter (\<lambda>e. \<exists>d. snd e = File d) (installers w))"
    by (rule rawVersions_eq)
next
  assume "\<forall>raw \<in> set (rawVersions (installers w)). \<exists>v. semver_NewVersion w raw = Inr v"
  from parseVersions_all [OF this] obtain vs where
    p: "parseVersions (semver_NewVersion w) (rawVersions (installers w)) = Inr vs"
    and m: "map Inr vs = map (semver_NewVersion w) (rawVersions (installers w))"
    by blast
  let ?s = "insertionSort (semver_LessThan w) vs"
  have 1: "Versions w = Inr (map (\<lambda>v. ''v'' @ semver_String w v) ?s)"
    using p by (simp add: Versions_def)
  have "mset (map Inr ?s) = mset (map Inr vs)"
    by (simp add: mset_insertionSort)
  also have "\<dots> = mset (map (semver_NewVersion w) (rawVersions (installers w)))"
    by (simp only: m)
  finally have 2:
    "mset (map Inr ?s) = mset (map (semver_NewVersion w) (rawVersions (installers w)))" .
  have 3: "sorted_wrt (\<lambda>a b. \<not> semver_LessThan w b a) ?s"
    by (rule sorted_insertionSort [OF assms])
  from 1 2 3
  show "\<exists>parsed. Versions w = Inr (map (\<lambda>v. ''v'' @ semver_String w v) parsed)
             \<and> mset (map Inr parsed) = mset (map (semver_NewVersion w) (rawVersions (installers w)))
             \<and> sorted_wrt (\<lambda>a b. \<not> semver_LessThan w b a) parsed"
    by blast
next
  assume "\<exists>raw \<in> set (rawVersions (installers w)). \<exists>err. semver_NewVersion w raw = Inl err"
  from parseVersions_some_fails [OF this]
  show "\<exists>raw \<in> set (rawVersions (installers w)). \<exists>err.
             semver_NewVersion w raw = Inl err \<and> Versions w = Inl (Lib err)"
    by (auto simp: Versions_def)
qed

lemma plain_strictWeakOrder: "strictWeakOrder plainLessThan"
  unfolding strictWeakOrder_def by auto


lemma broken_rawVersions: "rawVersions brokenInstallers = [''latest'', ''v1.2.0'']"
  by (simp add: brokenInstallers_def TrimSuffix_def Base_def)

lemma broken_parse: "plainNewVersion ''latest'' = Inl ''Invalid Semantic Version''"
  by (simp add: plainNewVersion_def parseSegment_def digitValue_def)

theorem versions_sorted_by_semver_witness:
  "strictWeakOrder (semver_LessThan (installerWorld noFiles plainJSON))
   \<and> rawVersions (installers (installerWorld noFiles plainJSON)) = [''v1.10.0'', ''v1.2.0'']
   \<and> semver_NewVersion (installerWorld noFiles plainJSON) ''v1.10.0'' = Inr (1, 10, 0)
   \<and> semver_NewVersion (installerWorld noFiles plainJSON) ''v1.2.0'' = Inr (1, 2, 0)
   \<and> Versions (installerWorld noFiles plainJSON) = Inr [''v1.2.0'', ''v1.10.0'']
   \<and> ''v1.10.0'' < ''v1.2.0''
   \<and> (\<exists>parsed. Versions (installerWorld noFiles plainJSON)
                   = Inr (map (\<lambda>v. ''v'' @ semver_String (installerWorld noFiles plainJSON) v) parsed)
          \<and> sorted_wrt (\<lambda>a b. \<not> semver_LessThan (installerWorld noFiles plainJSON) b a) parsed)
   \<and> rawVersions (installers brokenWorld) = [''latest'', ''v1.2.0'']
   \<and> semver_NewVersion brokenWorld ''latest'' = Inl ''Invalid Semantic Version''
   \<and> Versions brokenWorld = Inl (Lib ''Invalid Semantic Version'')"
proof -
  let ?A = "installerWorld noFiles plainJSON"
  have a0: "strictWeakOrder (semver_LessThan ?A)"
    by (simp add: installerWorld_def sampleWorld_def plain_strictWeakOrder)
  have a1: "rawVersions (installers ?A) = [''v1.10.0'', ''v1.2.0'']"
    by (simp add: installerWorld_def sampleWorld_def sample_rawVersions)
  have a2: "semver_NewVersion ?A ''v1.10.0'' = Inr (1, 10, 0)"
    and a3: "semver_NewVersion ?A ''v1.2.0'' = Inr (1, 2, 0)"
    by (simp_all add: installerWorld_def sampleWorld_def sample_parse)
  have a4: "\<forall>raw \<in> set (rawVersions (installers ?A)). \<exists>v. semver_NewVersion ?A raw = Inr v"
    unfolding a1 using a2 a3 by simp
  from versions_sorted_by_semver [OF a0] a4
  have a5: "\<exists>parsed. Versions ?A = Inr (map (\<lambda>v. ''v'' @ semver_String ?A v) parsed)
          \<and> sorted_wrt (\<lambda>a b. \<not> semver_LessThan ?A b a) parsed"
    by blast
  have a6: "''v1.10.0'' < ''v1.2.0''" by simp
  have b0: "strictWeakOrder (semver_LessThan brokenWorld)"
    by (simp add: brokenWorld_def sampleWorld_def plain_strictWeakOrder)
  have b1: "rawVersions (installers brokenWorld) = [''latest'', ''v1.2.0'']"
    by (simp add: brokenWorld_def sampleWorld_def broken_rawVersions)
  have b2: "semver_NewVersion brokenWorld ''latest'' = Inl ''Invalid Semantic Version''"
    by (simp add: brokenWorld_def sampleWorld_def broken_parse)
  have b3: "semver_NewVersion brokenWorld ''v1.2.0'' = Inr (1, 2, 0)"
    by (simp add: brokenWorld_def sampleWorld_def sample_parse)
  have "\<exists>raw \<in> set (rawVersions (installers brokenWorld)). \<exists>err.
          semver_NewVersion brokenWorld raw = Inl err"
    unfolding b1 using b2 by simp
  with versions_sorted_by_semver [OF b0]
  have "\<exists>raw \<in> set (rawVersions (installers brokenWorld)). \<exists>err.
          semver_NewVersion brokenWorld raw = Inl err \<and> Versions brokenWorld = Inl (Lib err)"
    by blast
  then have b4: "Versions brokenWorld = Inl (Lib ''Invalid Semantic Version'')"
    unfolding b1 using b2 b3 by auto
  from a0 a1 a2 a3 sample_Versions [of noFiles plainJSON] a5 a6 b1 b2 b4 show ?thesis
    by blast
qed

section \<open>The registry host of the pull secret\<close>

lemma ImagePullSecret_InrD:
  assumes "ImagePullSecret w keyFileLocation = Inr secret"
  shows "\<exists>contents configJSON.
           os_ReadFile w keyFileLocation = Contents contents
           \<and> json_Marshal w (dockerConfig contents) = Inr configJSON
           \<and> secret_Data secret = [(''.dockerconfigjson'', configJSON)]"
  using assms by (auto simp: ImagePullSecret_def split: keyfile.splits sum.splits)

lemma renderOperatorYAML_InrD:
  assumes "renderOperatorYAML w options = Inr output"
  shows "\<exists>secret secretData buf tpl.
           ImagePullSecret w (CredentialsLocation options) = Inr secret
           \<and> yaml_Marshal_Secret w secret = Inr secretData
           \<and> template_Parse w (buf @ ''---'' @ [CHR 0x0A] @ secretData) = Inr tpl
           \<and> template_Execute w tpl (ImageRegistry options) = Inr output"
  using assms unfolding renderOperatorYAML_def
  by (simp split: sum.splits) blast

lemma generateIssuers_appends:
  "generateIssuers w mf ts = Inr mf' \<Longrightarrow>
     \<exists>extra. secrets mf' = secrets mf @ extra \<and> length extra = length ts"
proof (induction ts arbitrary: mf)
  case Nil
  then show ?case by simp
next
  case (Cons t ts)
  then obtain issuer secret where
    g: "GenerateOperatorManifestsForIssuer w t = Inr (issuer, secret)"
    by (auto split: sum.splits)
  let ?m = "withSpec (\<lambda>sp. sp\<lparr>spec_Issuers := spec_Issuers sp @ [issuer]\<rparr>)
              (mf\<lparr>secrets := secrets mf @ [secret]\<rparr>)"
  from Cons.prems g have "generateIssuers w ?m ts = Inr mf'" by simp
  from Cons.IH [OF this] obtain extra where
    "secrets mf' = secrets ?m @ extra" and "length extra = length ts"
    by blast
  then have "secrets mf' = secrets mf @ (secret # extra) \<and> length (secret # extra) = length (t # ts)"
    by (simp add: withSpec_def)
  then show ?case by blast
qed

lemma build_secrets:
  fixes w :: "('x, 'v, 't, 'i, 'f) world"
  assumes "buildManifests w options = Inr mf"
  shows "\<exists>generated. length generated = length (VenafiIssuers options)
     \<and> (if Credentials options = [] then secrets mf = generated
         else \<exists>secret. ImagePullSecret w (Credentials options) = Inr secret
                \<and> secrets mf = secret # generated)"
proof -
  from buildManifests_InrD [OF assms] obtain m1 m2 m5 where
    s1: "applyIstioCSRToInstallation (baseManifests w options) options
           = (Inr m1 :: 'x error + 'f manifests)" and
    s2: "applyCertManagerVersion m1 options = (Inr m2 :: 'x error + 'f manifests)" and
    s5: "collectPullSecret w
           (applyVenafiOauthHelperToInstallation (applyCSIDriversToInstallation m2 options) options)
           options = Inr m5" and
    s6: "generateIssuers w m5 (VenafiIssuers options) = Inr mf"
    by blast
  have b: "secrets (baseManifests w options) = []" by (simp add: baseManifests_def)
  have "secrets m1 = []"
    using s1 b by (auto simp: applyIstioCSRToInstallation_def withSpec_def Let_def split: if_splits)
  then have "secrets m2 = []"
    using s2 by (auto simp: applyCertManagerVersion_def withSpec_def split: if_splits option.splits)
  then have m4: "secrets (applyVenafiOauthHelperToInstallation
                    (applyCSIDriversToInstallation m2 options) options) = []"
    by (simp add: applyVenafiOauthHelperToInstallation_def applyCSIDriversToInstallation_def
          withSpec_def Let_def)
  from generateIssuers_appends [OF s6] obtain generated where
    g: "secrets mf = secrets m5 @ generated" and l: "length generated = length (VenafiIssuers options)"
    by blast
  show ?thesis
  proof (cases "Credentials options = []")
    case True
    with s5 m4 have "secrets m5 = []" by (simp add: collectPullSecret_def)
    with g l True show ?thesis by auto
  next
    case False
    with s5 m4 obtain secret where "ImagePullSecret w (Credentials options) = Inr secret"
      and "secrets m5 = [secret]"
      by (auto simp: collectPullSecret_def split: sum.splits)
    with g l False show ?thesis by auto
  qed
qed


text \<open>
  C9. Whatever the key data, the docker configuration that \<open>ImagePullSecret\<close> encodes has
  exactly one \<open>auths\<close> entry, keyed by the host \<open>eu.gcr.io\<close>, with the email
  \<open>auth@jetstack.io\<close>; every secret \<open>ImagePullSecret\<close> returns holds the JSON of that
  configuration as its only data value. The renderer and the installation builder use the
  secret \<open>ImagePullSecret\<close> returns for their credentials path: it does not depend on the
  \<open>ImageRegistry\<close> option, which the renderer uses only when executing the template, and
  the builder collects it before the secrets generated for the issuers.
\<close>

theorem registry_host_is_fixed:
  "(\<exists>entry. Auths (dockerConfig keyData) = [(''eu.gcr.io'', entry)]
            \<and> Email entry = ''auth@jetstack.io'')
   \<and> (ImagePullSecret w keyFileLocation = Inr secret \<longrightarrow>
        (\<exists>contents configJSON.
           os_ReadFile w keyFileLocation = Contents contents
           \<and> json_Marshal w (dockerConfig contents) = Inr configJSON
           \<and> secret_Data secret = [(''.dockerconfigjson'', configJSON)]))
   \<and> ImagePullSecret w (CredentialsLocation (options\<lparr>ImageRegistry := registry\<rparr>))
       = ImagePullSecret w (CredentialsLocation options)
   \<and> (renderOperatorYAML w options = Inr stream \<longrightarrow>
        (\<exists>pullSecret secretData buf tpl.
           ImagePullSecret w (CredentialsLocation options) = Inr pullSecret
           \<and> yaml_Marshal_Secret w pullSecret = Inr secretData
           \<and> template_Parse w (buf @ ''---'' @ [CHR 0x0A] @ secretData) = Inr tpl
           \<and> template_Execute w tpl (ImageRegistry options) = Inr stream))
   \<and> (buildManifests w installationOptions = Inr mf \<longrightarrow>
        (\<exists>generated. length generated = length (VenafiIssuers installationOptions)
           \<and> (if Credentials installationOptions = [] then secrets mf = generated
               else \<exists>pullSecret.
                      ImagePullSecret w (Credentials installationOptions) = Inr pullSecret
                      \<and> secrets mf = pullSecret # generated)))"
proof (intro conjI impI)
  show "\<exists>entry. Auths (dockerConfig keyData) = [(''eu.gcr.io'', entry)]
            \<and> Email entry = ''auth@jetstack.io''"
    by (simp add: dockerConfig_def Let_def del: EncodeToString.simps)
  show "ImagePullSecret w (CredentialsLocation (options\<lparr>ImageRegistry := registry\<rparr>))
       = ImagePullSecret w (CredentialsLocation options)"
    by simp
next
  assume "ImagePullSecret w keyFileLocation = Inr secret"
  then show "\<exists>contents configJSON.
           os_ReadFile w keyFileLocation = Contents contents
           \<and> json_Marshal w (dockerConfig contents) = Inr configJSON
           \<and> secret_Data secret = [(''.dockerconfigjson'', configJSON)]"
    by (rule ImagePullSecret_InrD)
next
  assume "renderOperatorYAML w options = Inr stream"
  then show "\<exists>pullSecret secretData buf tpl.
           ImagePullSecret w (CredentialsLocation options) = Inr pullSecret
           \<and> yaml_Marshal_Secret w pullSecret = Inr secretData
           \<and> template_Parse w (buf @ ''---'' @ [CHR 0x0A] @ secretData) = Inr tpl
           \<and> template_Execute w tpl (ImageRegistry options) = Inr stream"
    by (rule renderOperatorYAML_InrD)
next
  assume "buildManifests w installationOptions = Inr mf"
  then show "\<exists>generated. length generated = length (VenafiIssuers installationOptions)
           \<and> (if Credentials installationOptions = [] then secrets mf = generated
               else \<exists>pullSecret.
                      ImagePullSecret w (Credentials installationOptions) = Inr pullSecret
                      \<and> secrets mf = pullSecret # generated)"
    by (rule build_secrets)
qed


theorem registry_host_is_fixed_witness:
  "(\<exists>secret configJSON.
      ImagePullSecret keyWorld ''key.json'' = Inr secret
      \<and> os_ReadFile keyWorld ''key.json'' = Contents ''ABC123''
      \<and> json_Marshal keyWorld (dockerConfig ''ABC123'') = Inr configJSON
      \<and> secret_Data secret = [(''.dockerconfigjson'', configJSON)])
   \<and> (\<exists>out pullSecret.
        renderOperatorYAML (installerWorld (oneFile ''key.json'' ''ABC123'') plainJSON)
          (operatorOptions ''v1.10.0'') = Inr out
        \<and> ImagePullSecret (installerWorld (oneFile ''key.json'' ''ABC123'') plainJSON)
            (CredentialsLocation (operatorOptions ''v1.10.0'')) = Inr pullSecret)
   \<and> (\<exists>mf pullSecret generated.
        buildManifests keyWorld (issuerOptions [''ok''] ''key.json'') = Inr mf
        \<and> Credentials (issuerOptions [''ok''] ''key.json'') = ''key.json''
        \<and> ImagePullSecret keyWorld ''key.json'' = Inr pullSecret
        \<and> secrets mf = pullSecret # generated)"
proof -
  let ?W = "installerWorld (oneFile ''key.json'' ''ABC123'') plainJSON"
  let ?o = "operatorOptions ''v1.10.0''"
  let ?i = "issuerOptions [''ok''] ''key.json''"
  have k: "os_ReadFile keyWorld ''key.json'' = Contents ''ABC123''"
    by (simp add: keyWorld_def sampleWorld_def oneFile_def)
  obtain secret where s: "ImagePullSecret keyWorld ''key.json'' = Inr secret"
    by (simp add: ImagePullSecret_def keyWorld_def sampleWorld_def oneFile_def plainJSON_def)
  have "\<exists>out. ApplyOperatorYAML ?W applyOK ?o = (None, [out])"
    by (rule sample_apply [where rest = "''/js-operator:v1.10.0'' @ nl" and keyData = "''ABC123''"])
       (simp_all add: operatorOptions_def sample_manifestVersion nl_def oneFile_def plainJSON_def)
  then obtain out where r: "renderOperatorYAML ?W ?o = Inr out"
    by (auto simp: ApplyOperatorYAML_def split: sum.splits)
  obtain mf where b: "buildManifests keyWorld ?i = Inr mf"
    using implemented_names by blast
  have c: "Credentials ?i = ''key.json''" by (simp add: issuerOptions_def)
  note t1 = registry_host_is_fixed
         [where w = keyWorld and keyFileLocation = "''key.json''" and secret = secret
            and keyData = "''ABC123''" and options = ?o and registry = "[]" and stream = out
            and installationOptions = ?i and mf = mf]
  note t2 = registry_host_is_fixed
         [where w = ?W and keyFileLocation = "''key.json''" and secret = secret
            and keyData = "''ABC123''" and options = ?o and registry = "[]" and stream = out
            and installationOptions = ?i and mf = mf]
  from t1 s k
  have 1: "\<exists>configJSON.
      json_Marshal keyWorld (dockerConfig ''ABC123'') = Inr configJSON
      \<and> secret_Data secret = [(''.dockerconfigjson'', configJSON)]"
    by auto
  from t2 r
  have 2: "\<exists>pullSecret. ImagePullSecret ?W (CredentialsLocation ?o) = Inr pullSecret"
    by blast
  from t1 b
  have "\<exists>generated. length generated = length (VenafiIssuers ?i)
           \<and> (if Credentials ?i = [] then secrets mf = generated
               else \<exists>pullSecret.
                      ImagePullSecret keyWorld (Credentials ?i) = Inr pullSecret
                      \<and> secrets mf = pullSecret # generated)"
    by blast
  then have 3: "\<exists>pullSecret generated.
        ImagePullSecret keyWorld ''key.json'' = Inr pullSecret \<and> secrets mf = pullSecret # generated"
    unfolding c by auto
  from s k 1 r 2 b c 3 show ?thesis by blast
qed

end
